theory Spec2Isabelle
  imports Complex_Main
begin

section \<open>JavaScript strings\<close>

text \<open>
  A JavaScript string is a sequence of UTF-16 code units, each a natural number (below
  65536 in a string of the program; no function here computes a larger one from
  smaller ones). ASCII literals of the source are written \<open>js ''...''\<close>; the
  Persian phrases and the typographic apostrophe (U+2019) are written as their code
  units.
\<close>

type_synonym jsstring = "nat list"

definition js :: "string \<Rightarrow> jsstring" where
  "js s = map of_char s"

text \<open>\<open>String.prototype.includes\<close>: the pattern occurs at some index.\<close>

fun startsWith :: "jsstring \<Rightarrow> jsstring \<Rightarrow> bool" where
  "startsWith s [] = True"
| "startsWith [] (c # p) = False"
| "startsWith (a # s) (c # p) = (a = c \<and> startsWith s p)"

fun js_includes :: "jsstring \<Rightarrow> jsstring \<Rightarrow> bool" where
  "js_includes [] p = startsWith [] p"
| "js_includes (a # s) p = (startsWith (a # s) p \<or> js_includes s p)"

text \<open>
  The class \<open>\s\<close> of a regular expression, which is also the set that
  \<open>String.prototype.trim\<close> strips (white space and line terminators): tab to
  carriage return, space, U+00A0, U+1680, U+2000 to U+200A, U+2028, U+2029, U+202F,
  U+205F, U+3000 and U+FEFF.
\<close>

definition is_space :: "nat \<Rightarrow> bool" where
  "is_space c =
     (if c < 0x80 then c = 0x20 \<or> (0x09 \<le> c \<and> c \<le> 0x0D)
      else c = 0xA0 \<or> c = 0x1680 \<or> (0x2000 \<le> c \<and> c \<le> 0x200A) \<or> c = 0x2028
           \<or> c = 0x2029 \<or> c = 0x202F \<or> c = 0x205F \<or> c = 0x3000 \<or> c = 0xFEFF)"

text \<open>\<open>s.replace(/\s+/g, " ")\<close>: every maximal run of white space becomes one space.\<close>

function collapse_ws :: "jsstring \<Rightarrow> jsstring" where
  "collapse_ws [] = []"
| "collapse_ws (c # cs) =
     (if is_space c then 0x20 # collapse_ws (dropWhile is_space cs)
      else c # collapse_ws cs)"
  by pat_completeness auto
termination
  by (relation "measure length") (auto simp: length_dropWhile_le less_Suc_eq_le)

definition trim :: "jsstring \<Rightarrow> jsstring" where
  "trim s = rev (dropWhile is_space (rev (dropWhile is_space s)))"

text \<open>\<open>s.slice(0, n)\<close> for a non-negative \<open>n\<close>.\<close>

definition slice0 :: "nat \<Rightarrow> jsstring \<Rightarrow> jsstring" where
  "slice0 n s = take n s"

text \<open>
  A case-insensitive regular expression (flag \<open>i\<close>, no flag \<open>u\<close>) that is an
  alternation of literals, tested against a string. Matching compares canonicalised
  code units; the engine's canonicalisation never maps a code unit of 128 or more to
  an ASCII one, and the letters of every literal in this program are ASCII or
  caseless, so folding \<open>a\<close>..\<open>z\<close> onto \<open>A\<close>..\<open>Z\<close> decides the match.
\<close>

definition canon :: "nat \<Rightarrow> nat" where
  "canon c = (if 0x61 \<le> c \<and> c \<le> 0x7A then c - 0x20 else c)"

definition regex_i_test :: "jsstring list \<Rightarrow> jsstring \<Rightarrow> bool" where
  "regex_i_test alts s = list_ex (\<lambda>a. js_includes (map canon s) (map canon a)) alts"

text \<open>The decimal digits of a non-negative integer, as a template literal prints it.\<close>

function decimal :: "nat \<Rightarrow> jsstring" where
  "decimal n =
     (if n < 10 then [of_nat (48 + n)]
      else decimal (n div 10) @ [of_nat (48 + n mod 10)])"
  by pat_completeness auto
termination
  by (relation "measure id") auto

declare decimal.simps [simp del]

text \<open>\<open>x || ""\<close> for a value that is a string, null or undefined.\<close>

definition or_empty :: "jsstring option \<Rightarrow> jsstring" where
  "or_empty x = (case x of None \<Rightarrow> [] | Some t \<Rightarrow> t)"

section \<open>The browser page and the world around the controller\<close>

text \<open>
  An awaited call either completes with a value or throws an \<open>Error\<close>, of which the
  program only ever reads the message.
\<close>

datatype 'a outcome = Ok 'a | Throw jsstring

type_synonym elem = nat

text \<open>What one embedded frame answers: \<open>f.url()\<close> and
  \<open>f.evaluate(() => document.body && document.body.innerText)\<close>.\<close>

record frame =
  furl :: "jsstring outcome"
  fbody :: "jsstring option outcome"

text \<open>Computed style and bounding box of an element, as the visibility test reads them.\<close>

record layout =
  display :: jsstring
  visibility :: jsstring
  width :: real
  height :: real

text \<open>An editable node of the document, as the fallback scan for the message input
  reads it: its handle, its layout, whether it lies inside an \<open>aria-hidden\<close>
  subtree, and the attributes \<open>aria-label\<close>, \<open>role\<close>,
  \<open>data-lexical-editor\<close> and \<open>contenteditable\<close>.\<close>

record node =
  n_elem :: elem
  n_layout :: layout
  n_ariaHidden :: bool
  n_ariaLabel :: "jsstring option"
  n_role :: "jsstring option"
  n_lexicalEditor :: "jsstring option"
  n_contenteditable :: "jsstring option"

text \<open>
  What the page answers to each read-only question at one moment. A missing value
  (null or undefined) is \<open>None\<close>; a question that faults is \<open>Throw\<close>.
\<close>

record page =
  url :: "jsstring outcome"
  frames :: "frame list outcome"
  query :: "jsstring \<Rightarrow> elem option outcome"
  queryAll :: "jsstring \<Rightarrow> elem list outcome"
  elemTexts :: "elem \<Rightarrow> (jsstring option \<times> jsstring option) outcome"
  bodyText :: "jsstring option outcome"
  elemLayout :: "elem \<Rightarrow> layout outcome"
  buttonTexts :: "jsstring option list outcome"
  bodyBox :: "(real \<times> real) option outcome"
  cookies :: "jsstring list outcome"
  contextCookies :: "jsstring list outcome"
  localStorage :: "(jsstring \<times> jsstring) list outcome"
  closestClickable :: "elem \<Rightarrow> elem option outcome"
  children :: "elem \<Rightarrow> jsstring \<Rightarrow> elem list outcome"
  elemHref :: "elem \<Rightarrow> jsstring option outcome"
  editableNodes :: "node list outcome"

text \<open>Every interaction that changes the page, takes time or leaves the process.\<close>

datatype event =
    Goto jsstring
  | Sleep real
  | SetViewport
  | Screenshot jsstring jsstring
  | WaitForSelector jsstring bool nat
  | WaitForFunction nat
  | Click elem
  | TripleClick elem
  | ClickSelector jsstring
  | Focus elem
  | KeyType jsstring
  | KeyPress jsstring
  | MouseMove int int
  | ClearStorage
  | DeleteCookie "jsstring list"
  | SaveSession jsstring "jsstring list" "(jsstring \<times> jsstring) list"

text \<open>
  The world is everything the controller does not compute itself. The page it sees
  (\<open>view\<close>) and the clock are functions of the interactions performed so far, and so is
  whether an interaction throws (\<open>fails\<close>) and what a selector wait returns. The
  engine's built-ins whose tables are not part of the program (\<open>toLowerCase\<close> on all
  of Unicode, the ISO day of a timestamp, \<open>encodeURIComponent\<close>,
  \<open>JSON.stringify\<close> of a string) and the stream of \<open>Math.random()\<close> draws are
  fields too, so every theorem holds whatever they are. The controller accepts any
  object with a \<open>goto\<close> method as its page: a Puppeteer page has a method
  \<open>setViewport\<close>, the Playwright page of \<open>playwrightServer.js\<close> has
  \<open>setViewportSize\<close> instead, and \<open>hasSetViewport\<close> says which. Logging and
  the file system of the screenshot directory are not modelled.
\<close>

record world =
  toLowerCase :: "jsstring \<Rightarrow> jsstring"
  isoDay :: "nat \<Rightarrow> jsstring"
  encodeURIComponent :: "jsstring \<Rightarrow> jsstring outcome"
  jsonStringify :: "jsstring \<Rightarrow> jsstring"
  random :: "nat \<Rightarrow> real"
  clock :: "event list \<Rightarrow> nat"
  view :: "event list \<Rightarrow> page"
  fails :: "event list \<Rightarrow> event \<Rightarrow> jsstring option"
  waitFor :: "event list \<Rightarrow> jsstring \<Rightarrow> bool \<Rightarrow> nat \<Rightarrow> elem option outcome"
  hasSetViewport :: bool

text \<open>The controller's own state: the interactions so far, the number of random
  draws consumed, and its fields \<open>_lastActionAt\<close>, \<open>sessionName\<close> and
  \<open>minMessageIntervalMs\<close>.\<close>

record ctl =
  trace :: "event list"
  draws :: nat
  lastActionAt :: nat
  sessionName :: jsstring
  minMessageIntervalMs :: nat

type_synonym 'a prog = "ctl \<Rightarrow> 'a outcome \<times> ctl"

definition ret :: "'a \<Rightarrow> 'a prog" where
  "ret x s = (Ok x, s)"

definition throw :: "jsstring \<Rightarrow> 'a prog" where
  "throw msg s = (Throw msg, s)"

definition bnd :: "'a prog \<Rightarrow> ('a \<Rightarrow> 'b prog) \<Rightarrow> 'b prog" where
  "bnd m f s = (case m s of (Ok x, s') \<Rightarrow> f x s' | (Throw e, s') \<Rightarrow> (Throw e, s'))"

text \<open>\<open>try { m } catch (e) { h(e.message) }\<close>\<close>

definition try_catch :: "'a prog \<Rightarrow> (jsstring \<Rightarrow> 'a prog) \<Rightarrow> 'a prog" where
  "try_catch m h s = (case m s of (Ok x, s') \<Rightarrow> (Ok x, s') | (Throw e, s') \<Rightarrow> h e s')"

text \<open>\<open>m.catch(() => {})\<close> and \<open>try { m } catch (e) {}\<close>\<close>

definition swallow :: "unit prog \<Rightarrow> unit prog" where
  "swallow m = try_catch m (\<lambda>e. ret ())"

text \<open>A read-only question to the page as it is now.\<close>

definition observe :: "world \<Rightarrow> (page \<Rightarrow> 'a outcome) \<Rightarrow> 'a prog" where
  "observe w q s = (q (view w (trace s)), s)"

text \<open>An interaction: recorded, whether or not it throws.\<close>

definition act :: "world \<Rightarrow> event \<Rightarrow> unit prog" where
  "act w e s =
     ((case fails w (trace s) e of None \<Rightarrow> Ok () | Some msg \<Rightarrow> Throw msg),
      s\<lparr>trace := trace s @ [e]\<rparr>)"

text \<open>\<open>await new Promise((r) => setTimeout(r, ms))\<close>, which is also \<open>wait(ms)\<close>.\<close>

definition sleep :: "real \<Rightarrow> unit prog" where
  "sleep ms s = (Ok (), s\<lparr>trace := trace s @ [Sleep ms]\<rparr>)"

definition mathRandom :: "world \<Rightarrow> real prog" where
  "mathRandom w s = (Ok (random w (draws s)), s\<lparr>draws := Suc (draws s)\<rparr>)"

definition dateNow :: "world \<Rightarrow> nat prog" where
  "dateNow w s = (Ok (clock w (trace s)), s)"

text \<open>\<open>page.waitForSelector(sel, { visible, timeout })\<close>\<close>

definition waitForSelector :: "world \<Rightarrow> jsstring \<Rightarrow> bool \<Rightarrow> nat \<Rightarrow> elem option prog" where
  "waitForSelector w sel vis timeout s =
     (waitFor w (trace s) sel vis timeout,
      s\<lparr>trace := trace s @ [WaitForSelector sel vis timeout]\<rparr>)"

section \<open>Screenshots (src/utils/screenshot.js)\<close>

record shot =
  shot_success :: bool
  shot_urlPath :: "jsstring option"
  shot_error :: "jsstring option"

text \<open>
  \<open>await page.setViewport({ ... }).catch(() => {})\<close>: the \<open>catch\<close> swallows a
  rejection of the call. On a page object without the method the call itself throws a
  TypeError before there is a promise to attach the \<open>catch\<close> to, and the
  \<open>try\<close> block ends there.
\<close>

definition setViewport :: "world \<Rightarrow> unit prog" where
  "setViewport w =
     (if hasSetViewport w then swallow (act w SetViewport)
      else throw (js ''page.setViewport is not a function''))"

definition captureScreenshot :: "world \<Rightarrow> jsstring \<Rightarrow> shot prog" where
  "captureScreenshot w label =
     bnd (dateNow w) (\<lambda>t0.
     bnd (dateNow w) (\<lambda>t1.
       let dateDir = isoDay w t0;
           filename = label @ js ''-'' @ decimal t1 @ js ''.png''
       in try_catch
            (bnd (setViewport w) (\<lambda>_.
             bnd (sleep 200) (\<lambda>_.
             bnd (act w (Screenshot dateDir filename)) (\<lambda>_.
             ret \<lparr>shot_success = True,
                  shot_urlPath = Some (js ''/screenshots/'' @ dateDir @ js ''/'' @ filename),
                  shot_error = None\<rparr>))))
            (\<lambda>err. ret \<lparr>shot_success = False, shot_urlPath = None, shot_error = Some err\<rparr>)))"

text \<open>\<open>shot.success ? shot.urlPath : null\<close>\<close>

definition shot_ref :: "shot \<Rightarrow> jsstring option" where
  "shot_ref sh = (if shot_success sh then shot_urlPath sh else None)"

section \<open>Captcha detection (src/utils/captcha.js)\<close>

text \<open>Each regular expression of \<open>FRAME_PATTERNS\<close> is one literal.\<close>

definition FRAME_PATTERNS :: "jsstring list list" where
  "FRAME_PATTERNS = [[js ''recaptcha''], [js ''hcaptcha''], [js ''captcha'']]"

definition SELECTOR_CANDIDATES :: "jsstring list" where
  "SELECTOR_CANDIDATES =
     [js ''iframe[src*='' @ [0x27] @ js ''recaptcha'' @ [0x27] @ js '']'',
      js ''iframe[src*='' @ [0x27] @ js ''hcaptcha'' @ [0x27] @ js '']'',
      js ''iframe[src*='' @ [0x27] @ js ''captcha'' @ [0x27] @ js '']'',
      js ''div[id*='' @ [0x27] @ js ''captcha'' @ [0x27] @ js '']'',
      js ''div[class*='' @ [0x27] @ js ''captcha'' @ [0x27] @ js '']'',
      js ''div[data-testid*='' @ [0x27] @ js ''captcha'' @ [0x27] @ js '']'',
      js ''form[action*='' @ [0x27] @ js ''checkpoint'' @ [0x27] @ js '']'',
      js ''a[href*='' @ [0x27] @ js ''/checkpoint'' @ [0x27] @ js '']'',
      js ''a[href*='' @ [0x27] @ js ''checkpoint'' @ [0x27] @ js '']'']"

definition TEXT_PATTERNS_EN :: "jsstring list" where
  "TEXT_PATTERNS_EN =
     [js ''complete a challenge to verify you'' @ [0x2019] @ js ''re a human'',
      js ''complete a challenge'',
      js ''verify you'' @ [0x2019] @ js ''re a human'',
      js ''verify you are a human'',
      js ''solve a puzzle'',
      js ''try audio challenge'',
      js ''security check'',
      js ''confirm your identity'',
      js ''prove you are human'',
      js ''type the characters you see'',
      js ''enter the characters'',
      js ''we just need to make sure there'' @ [0x2019] @ js ''s a real human'',
      js ''to continue, verify'',
      js ''prove it'' @ [0x27] @ js ''s you'',
      js ''we detected unusual activity'']"

definition TEXT_PATTERNS_FA :: "jsstring list" where
  "TEXT_PATTERNS_FA =
     [[0x062A, 0x0623, 0x06CC, 0x06CC, 0x062F] @ js '' '' @ [0x0647, 0x0648, 0x06CC, 0x062A],
      [0x062A, 0x0623, 0x06CC, 0x06CC, 0x062F] @ js '' '' @ [0x06A9, 0x0646, 0x06CC, 0x062F],
      [0x0628, 0x0631, 0x0627, 0x06CC] @ js '' '' @ [0x0627, 0x062F, 0x0627, 0x0645, 0x0647],
      [0x0645, 0x0627] @ js '' '' @ [0x0628, 0x0627, 0x06CC, 0x062F] @ js '' ''
        @ [0x0645, 0x0637, 0x0645, 0x0626, 0x0646] @ js '' '' @ [0x0634, 0x0648, 0x06CC, 0x0645],
      [0x0627, 0x062B, 0x0628, 0x0627, 0x062A] @ js '' '' @ [0x06A9, 0x0646, 0x06CC, 0x062F]
        @ js '' '' @ [0x06A9, 0x0647] @ js '' '' @ [0x0627, 0x0646, 0x0633, 0x0627, 0x0646]
        @ js '' '' @ [0x0647, 0x0633, 0x062A, 0x06CC, 0x062F],
      [0x0646, 0x0648, 0x0639] @ js '' ''
        @ [0x06A9, 0x0627, 0x0631, 0x0627, 0x06A9, 0x062A, 0x0631, 0x0647, 0x0627] @ js '' ''
        @ [0x0631, 0x0627] @ js '' '' @ [0x0648, 0x0627, 0x0631, 0x062F] @ js '' ''
        @ [0x06A9, 0x0646, 0x06CC, 0x062F],
      [0x062A, 0x06A9, 0x0645, 0x06CC, 0x0644] @ js '' '' @ [0x0622, 0x0632, 0x0645, 0x0648, 0x0646],
      [0x062A, 0x0623, 0x06CC, 0x06CC, 0x062F] @ js '' '' @ [0x0634, 0x0645, 0x0627],
      [0x0628, 0x0631, 0x0631, 0x0633, 0x06CC] @ js '' ''
        @ [0x0627, 0x0645, 0x0646, 0x06CC, 0x062A, 0x06CC]]"

text \<open>\<open>(s || "").toLowerCase().replace(/\s+/g, " ").trim()\<close>\<close>

definition normalize :: "world \<Rightarrow> jsstring \<Rightarrow> jsstring" where
  "normalize w s = trim (collapse_ws (toLowerCase w s))"

text \<open>The phrase test shared by the frame-text and the selector-text checks.\<close>

definition text_hit :: "world \<Rightarrow> jsstring \<Rightarrow> bool" where
  "text_hit w n =
     (list_ex (\<lambda>p. js_includes n (normalize w p)) TEXT_PATTERNS_EN
      \<or> list_ex (\<lambda>p. js_includes n (normalize w p)) TEXT_PATTERNS_FA)"

text \<open>The result object. A field the object does not carry, or carries as null, is
  \<open>None\<close>: the not-detected object of the source is \<open>{ detected: false }\<close>.\<close>

record captchaResult =
  detected :: bool
  method' :: "jsstring option"
  match :: "jsstring option"
  screenshot :: "jsstring option"
  snippet :: "jsstring option"

definition not_detected :: captchaResult where
  "not_detected =
     \<lparr>detected = False, method' = None, match = None, screenshot = None, snippet = None\<rparr>"

definition found :: "jsstring \<Rightarrow> jsstring \<Rightarrow> jsstring option \<Rightarrow> shot \<Rightarrow> captchaResult" where
  "found m x snip sh =
     \<lparr>detected = True, method' = Some m, match = Some x, screenshot = shot_ref sh,
      snippet = snip\<rparr>"

text \<open>An already settled call, awaited.\<close>

definition await :: "'a outcome \<Rightarrow> 'a prog" where
  "await x s = (x, s)"

text \<open>
  Each check of \<open>detectCaptcha\<close> either makes the function return (\<open>Some\<close> result) or
  falls through to the next one (\<open>None\<close>).
\<close>

definition orElse :: "'a option prog \<Rightarrow> 'a option prog \<Rightarrow> 'a option prog" where
  "orElse m n = bnd m (\<lambda>r. case r of Some x \<Rightarrow> ret (Some x) | None \<Rightarrow> n)"

definition is_checkpoint_url :: "jsstring \<Rightarrow> bool" where
  "is_checkpoint_url u =
     (u \<noteq> [] \<and>
      regex_i_test [js ''checkpoint'', js ''security'', js ''login_check'',
                    js ''login/checkpoint'', js ''confirm''] u)"

text \<open>1) URL heuristics.\<close>

definition urlCheck :: "world \<Rightarrow> captchaResult option prog" where
  "urlCheck w =
     bnd (try_catch (observe w url) (\<lambda>e. ret [])) (\<lambda>u.
       if is_checkpoint_url u then
         bnd (captureScreenshot w (js ''captcha-by-url'')) (\<lambda>sh.
         ret (Some (found (js ''url'') u None sh)))
       else ret None)"

definition frame_url_hit :: "jsstring \<Rightarrow> bool" where
  "frame_url_hit fu = list_ex (\<lambda>rx. regex_i_test rx fu) FRAME_PATTERNS"

text \<open>2) The loop over the frames: the address of a frame, then its text, then the
  next frame. A fault of \<open>f.url()\<close> leaves the loop; a fault while reading the text
  is caught inside the iteration.\<close>

fun scanFrames :: "world \<Rightarrow> frame list \<Rightarrow> captchaResult option prog" where
  "scanFrames w [] = ret None"
| "scanFrames w (f # fs) =
     bnd (await (furl f)) (\<lambda>fu.
       if frame_url_hit fu then
         bnd (captureScreenshot w (js ''captcha-by-frame-url'')) (\<lambda>sh.
         ret (Some (found (js ''frame_url'') fu None sh)))
       else
         orElse
           (try_catch
              (bnd (await (fbody f)) (\<lambda>txt.
                 let n = normalize w (or_empty txt) in
                 if n = [] then ret None
                 else if text_hit w n then
                   bnd (captureScreenshot w (js ''captcha-by-frame-text'')) (\<lambda>sh.
                   ret (Some (found (js ''frame_text'') fu (Some (slice0 2000 n)) sh)))
                 else ret None))
              (\<lambda>e. ret None))
           (scanFrames w fs))"

definition frameCheck :: "world \<Rightarrow> captchaResult option prog" where
  "frameCheck w = try_catch (bnd (observe w frames) (scanFrames w)) (\<lambda>e. ret None)"

text \<open>\<open>a || b\<close> for values that are strings, null or undefined: the empty string is
  falsy.\<close>

definition or_js :: "jsstring option \<Rightarrow> jsstring option \<Rightarrow> jsstring option" where
  "or_js a b = (case a of None \<Rightarrow> b | Some t \<Rightarrow> if t = [] then b else Some t)"

text \<open>3) One selector candidate, inside its own try/catch.\<close>

definition selectorStep :: "world \<Rightarrow> jsstring \<Rightarrow> captchaResult option prog" where
  "selectorStep w sel =
     try_catch
       (bnd (observe w (\<lambda>p. query p sel)) (\<lambda>el.
          case el of
            None \<Rightarrow> ret None
          | Some e \<Rightarrow>
              if regex_i_test [js ''iframe''] sel then
                bnd (captureScreenshot w (js ''captcha-by-selector-iframe'')) (\<lambda>sh.
                ret (Some (found (js ''selector'') sel None sh)))
              else
                bnd (observe w (\<lambda>p. elemTexts p e)) (\<lambda>(innerText, textContent).
                  let ntext = normalize w (or_empty (or_js innerText textContent)) in
                  if text_hit w ntext then
                    bnd (captureScreenshot w (js ''captcha-by-selector-text'')) (\<lambda>sh.
                    ret (Some (found (js ''selector_text'') sel (Some (slice0 2000 ntext)) sh)))
                  else ret None)))
       (\<lambda>e. ret None)"

fun scanSelectors :: "world \<Rightarrow> jsstring list \<Rightarrow> captchaResult option prog" where
  "scanSelectors w [] = ret None"
| "scanSelectors w (sel # sels) = orElse (selectorStep w sel) (scanSelectors w sels)"

text \<open>4) The phrases against the text of the whole body, English first.\<close>

fun scanPatterns :: "world \<Rightarrow> jsstring \<Rightarrow> jsstring list \<Rightarrow> captchaResult option prog" where
  "scanPatterns w nb [] = ret None"
| "scanPatterns w nb (pat # pats) =
     (let p = normalize w pat in
      if p \<noteq> [] \<and> js_includes nb p then
        bnd (captureScreenshot w (js ''captcha-by-body-text'')) (\<lambda>sh.
        ret (Some (found (js ''text'') p (Some (slice0 2000 nb)) sh)))
      else scanPatterns w nb pats)"

definition bodyCheck :: "world \<Rightarrow> captchaResult option prog" where
  "bodyCheck w =
     bnd (try_catch (bnd (observe w bodyText) (\<lambda>b. ret (or_empty b))) (\<lambda>e. ret [])) (\<lambda>bt.
       let normalizedBody = normalize w bt in
       if normalizedBody \<noteq> [] then
         scanPatterns w normalizedBody (TEXT_PATTERNS_EN @ TEXT_PATTERNS_FA)
       else ret None)"

definition detectCaptcha :: "world \<Rightarrow> captchaResult prog" where
  "detectCaptcha w =
     try_catch
       (bnd (orElse (urlCheck w)
            (orElse (frameCheck w)
            (orElse (scanSelectors w SELECTOR_CANDIDATES)
                    (bodyCheck w))))
          (\<lambda>r. ret (case r of Some res \<Rightarrow> res | None \<Rightarrow> not_detected)))
       (\<lambda>err. ret not_detected)"

section \<open>Example worlds\<close>

text \<open>Concrete pages and worlds on which the theorems below are instantiated:
  the page never changes, no interaction fails, the clock stands at 0 and
  \<open>toLowerCase\<close> folds the ASCII letters.\<close>

definition ascii_lower :: "jsstring \<Rightarrow> jsstring" where
  "ascii_lower s = map (\<lambda>c. if 0x41 \<le> c \<and> c \<le> 0x5A then c + 0x20 else c) s"

definition blank_page :: page where
  "blank_page =
     \<lparr>url = Ok (js ''https://www.facebook.com/''), frames = Ok [],
      query = (\<lambda>sel. Ok None), queryAll = (\<lambda>sel. Ok []),
      elemTexts = (\<lambda>e. Ok (None, None)), bodyText = Ok None,
      elemLayout = (\<lambda>e. Throw (js ''no such element'')),
      buttonTexts = Ok [], bodyBox = Ok None, cookies = Ok [], contextCookies = Ok [],
      localStorage = Ok [], closestClickable = (\<lambda>e. Ok None),
      children = (\<lambda>e sel. Ok []), elemHref = (\<lambda>e. Ok None), editableNodes = Ok []\<rparr>"

definition still_world :: "page \<Rightarrow> world" where
  "still_world p =
     \<lparr>toLowerCase = ascii_lower, isoDay = (\<lambda>t. js ''2025-01-01''),
      encodeURIComponent = Ok, jsonStringify = (\<lambda>s. [0x22] @ s @ [0x22]),
      random = (\<lambda>n. 0), clock = (\<lambda>tr. 0), view = (\<lambda>tr. p),
      fails = (\<lambda>tr e. None), waitFor = (\<lambda>tr sel vis t. Ok None),
      hasSetViewport = True\<rparr>"

definition start :: ctl where
  "start = \<lparr>trace = [], draws = 0, lastActionAt = 0, sessionName = js ''default'',
             minMessageIntervalMs = 10000\<rparr>"

definition two_frames :: page where
  "two_frames = blank_page\<lparr>frames := Ok
      [\<lparr>furl = Ok (js ''about:blank''), fbody = Ok (Some (js ''Security  Check''))\<rparr>,
       \<lparr>furl = Ok (js ''https://www.google.com/recaptcha/api2/anchor''),
        fbody = Throw (js ''cross-origin'')\<rparr>]\<rparr>"

text \<open>The readable text of a frame contains a challenge phrase: the condition under
  which \<open>scanFrames\<close> reports \<open>frame_text\<close> for it.\<close>

definition frame_text_hit :: "world \<Rightarrow> frame \<Rightarrow> bool" where
  "frame_text_hit w g =
     (case fbody g of
        Ok txt \<Rightarrow> normalize w (or_empty txt) \<noteq> [] \<and> text_hit w (normalize w (or_empty txt))
      | Throw e \<Rightarrow> False)"

text \<open>The value a run returned, if it returned one.\<close>

definition returned :: "'a outcome \<times> ctl \<Rightarrow> 'a option" where
  "returned r = (case fst r of Ok x \<Rightarrow> Some x | Throw e \<Rightarrow> None)"

text \<open>A page every question to which faults, and a page with an opaque frame followed
  by a challenge widget.\<close>

definition faulty_page :: page where
  "faulty_page =
     blank_page\<lparr>url := Throw (js ''detached''), frames := Throw (js ''detached''),
       query := (\<lambda>sel. Throw (js ''detached'')), bodyText := Throw (js ''detached'')\<rparr>"

definition widget_page :: page where
  "widget_page = blank_page\<lparr>frames := Ok
      [\<lparr>furl = Ok (js ''about:blank''), fbody = Throw (js ''cross-origin'')\<rparr>,
       \<lparr>furl = Ok (js ''https://www.google.com/recaptcha/api2/anchor''),
        fbody = Ok (Some (js ''Security  Check''))\<rparr>]\<rparr>"

section \<open>Human pacing (src/utils/human.js)\<close>

text \<open>The target of \<open>humanType\<close>: a selector string, or a handle (possibly null).\<close>

datatype target = Selector jsstring | Handle "elem option"

text \<open>\<open>for (const ch of text)\<close> iterates code points: a surrogate pair is one step.\<close>

fun codePoints :: "jsstring \<Rightarrow> jsstring list" where
  "codePoints [] = []"
| "codePoints [a] = [[a]]"
| "codePoints (a # b # cs) =
     (if 0xD800 \<le> a \<and> a \<le> 0xDBFF \<and> 0xDC00 \<le> b \<and> b \<le> 0xDFFF
      then [a, b] # codePoints cs
      else [a] # codePoints (b # cs))"

fun typeChars :: "world \<Rightarrow> jsstring list \<Rightarrow> real \<Rightarrow> real \<Rightarrow> unit prog" where
  "typeChars w [] minDelay maxDelay = ret ()"
| "typeChars w (ch # chs) minDelay maxDelay =
     bnd (act w (KeyType ch)) (\<lambda>_.
     bnd (mathRandom w) (\<lambda>r.
     bnd (sleep (minDelay + of_int \<lfloor>r * (maxDelay - minDelay)\<rfloor>)) (\<lambda>_.
     typeChars w chs minDelay maxDelay)))"

definition humanType :: "world \<Rightarrow> target \<Rightarrow> jsstring \<Rightarrow> real \<Rightarrow> real \<Rightarrow> unit prog" where
  "humanType w handleOrSelector text minDelay maxDelay =
     bnd (case handleOrSelector of
            Selector sel \<Rightarrow> observe w (\<lambda>p. query p sel)
          | Handle h \<Rightarrow> ret h) (\<lambda>handle.
       case handle of
         None \<Rightarrow> throw (js ''humanType: handle not found'')
       | Some h \<Rightarrow>
           bnd (act w (Focus h)) (\<lambda>_.
           typeChars w (codePoints text) minDelay maxDelay))"

text \<open>The controller calls \<open>humanType\<close> with the default delays 70 and 140.\<close>

definition humanTypeDefault :: "world \<Rightarrow> target \<Rightarrow> jsstring \<Rightarrow> unit prog" where
  "humanTypeDefault w handleOrSelector text = humanType w handleOrSelector text 70 140"

definition smallHumanMove :: "world \<Rightarrow> unit prog" where
  "smallHumanMove w =
     try_catch
       (bnd (observe w bodyBox) (\<lambda>box.
          case box of
            None \<Rightarrow> ret ()
          | Some (bw, bh) \<Rightarrow>
              bnd (mathRandom w) (\<lambda>r1.
              bnd (mathRandom w) (\<lambda>r2.
              act w (MouseMove \<lfloor>bw * 0.3 + r1 * bw * 0.6\<rfloor> \<lfloor>bh * 0.2 + r2 * bh * 0.6\<rfloor>)))))
       (\<lambda>e. ret ())"

section \<open>Session persistence (src/utils/session.js) and throttling\<close>

text \<open>\<open>saveSession\<close> returns the path of the session file, here relative to the
  working directory.\<close>

definition saveSession :: "world \<Rightarrow> jsstring \<Rightarrow> jsstring prog" where
  "saveSession w name =
     bnd (observe w contextCookies) (\<lambda>cs.
     bnd (observe w localStorage) (\<lambda>ls.
     bnd (act w (SaveSession name cs ls)) (\<lambda>_.
     ret (js ''sessions/'' @ name @ js ''.json''))))"

definition persistSession :: "world \<Rightarrow> jsstring option prog" where
  "persistSession w s =
     try_catch (bnd (saveSession w (sessionName s)) (\<lambda>p. ret (Some p))) (\<lambda>e. ret None) s"

text \<open>\<open>wait(base + Math.random() * spread)\<close>\<close>

definition waitRandom :: "world \<Rightarrow> real \<Rightarrow> real \<Rightarrow> unit prog" where
  "waitRandom w base spread = bnd (mathRandom w) (\<lambda>r. sleep (base + r * spread))"

definition throttle :: "world \<Rightarrow> unit prog" where
  "throttle w s =
     bnd (dateNow w) (\<lambda>now.
       let waitFor = max 0 (int (minMessageIntervalMs s) - (int now - int (lastActionAt s))) in
       bnd (if waitFor > 0 then sleep (of_int waitFor) else ret ()) (\<lambda>_.
       bnd (dateNow w) (\<lambda>now'. (\<lambda>s'. (Ok (), s'\<lparr>lastActionAt := now'\<rparr>))))) s"

section \<open>The controller (src/controllers/facebookController.js)\<close>

text \<open>The objects the public operations return. A field the object does not carry, or
  carries as null, is \<open>None\<close>.\<close>

record loginOutcome =
  o_outcome :: "jsstring option"
  o_captcha :: "captchaResult option"
  o_snippet :: "jsstring option"
  o_alreadyLoggedIn :: "bool option"
  o_success :: "bool option"

datatype detail = CaptchaDetail captchaResult | Snippet jsstring | RawOutcome loginOutcome

record actionResult =
  success :: "bool option"
  status :: "jsstring option"
  message :: "jsstring option"
  error :: "jsstring option"
  detail :: "detail option"
  screenshotPath :: "jsstring option"
  alreadyLoggedIn :: "bool option"
  profile :: "jsstring option"

definition emptyResult :: actionResult where
  "emptyResult =
     \<lparr>success = None, status = None, message = None, error = None, detail = None,
      screenshotPath = None, alreadyLoggedIn = None, profile = None\<rparr>"

subsection \<open>sendFriendRequest\<close>

definition addFriendSelector :: jsstring where
  "addFriendSelector =
     js ''div[aria-label='' @ [0x27] @ js ''Add friend'' @ [0x27] @ js ''][role=''
       @ [0x27] @ js ''button'' @ [0x27] @ js '']''"

definition cardXpath :: "world \<Rightarrow> jsstring \<Rightarrow> jsstring" where
  "cardXpath w profileName =
     js ''xpath=//div[contains(@role,'' @ [0x27] @ js ''feed'' @ [0x27]
       @ js '')]//a[.//span[contains(normalize-space(.), '' @ jsonStringify w profileName
       @ js '')]]''"

text \<open>The predicate of the already-friends scan, on the \<open>innerText\<close> of one button.\<close>

definition friendText :: "world \<Rightarrow> jsstring option \<Rightarrow> bool" where
  "friendText w innerText =
     (let txt = toLowerCase w (or_empty innerText) in
      js_includes txt (js ''friends'')
      \<or> js_includes txt ([0x062F, 0x0648, 0x0633, 0x062A] @ js '' '' @ [0x0634, 0x062F, 0x06CC, 0x062F])
      \<or> js_includes txt (js ''already friends''))"

text \<open>The predicate of the confirmation scan.\<close>

definition sentText :: "world \<Rightarrow> jsstring option \<Rightarrow> bool" where
  "sentText w innerText =
     (let txt = toLowerCase w (or_empty innerText) in
      js_includes txt (js ''cancel request'')
      \<or> js_includes txt (js ''friend request sent'')
      \<or> js_includes txt
           ([0x062F, 0x0631, 0x062E, 0x0648, 0x0627, 0x0633, 0x062A] @ js '' ''
            @ [0x062F, 0x0648, 0x0633, 0x062A, 0x06CC] @ js '' ''
            @ [0x0627, 0x0631, 0x0633, 0x0627, 0x0644] @ js '' '' @ [0x0634, 0x062F]))"

text \<open>
  The body of the \<open>try\<close> block. After the already-friends scan the source evaluates
  \<open>addFriendButtons[0].click()\<close>; the declaration of \<open>addFriendButtons\<close> is commented
  out and the module declares the name nowhere else, so the evaluation throws a
  ReferenceError with the message \<open>addFriendButtons is not defined\<close>. The statements
  after it are kept as the source has them.
\<close>

definition sendFriendRequest_try :: "world \<Rightarrow> jsstring \<Rightarrow> actionResult prog" where
  "sendFriendRequest_try w profileName =
     bnd (waitRandom w 1000 2000) (\<lambda>_.
     bnd (throttle w) (\<lambda>_.
     bnd (await (encodeURIComponent w profileName)) (\<lambda>q.
     bnd (act w (Goto (js ''https://www.facebook.com/search/top?q='' @ q))) (\<lambda>_.
     bnd (waitRandom w 1500 1500) (\<lambda>_.
     bnd (observe w (\<lambda>p. queryAll p (cardXpath w profileName))) (\<lambda>cards.
     bnd (observe w (\<lambda>p. query p addFriendSelector)) (\<lambda>addFriendBtn.
       case addFriendBtn of
         None \<Rightarrow>
           ret (emptyResult\<lparr>status := Some (js ''failed''),
                  message := Some (js ''No '' @ [0x27] @ js ''Add friend'' @ [0x27] @ js '' button found''),
                  error := Some (js ''no_add_friend_button'')\<rparr>)
       | Some btn \<Rightarrow>
           bnd (act w (Click btn)) (\<lambda>_.
           bnd (waitRandom w 1500 1000) (\<lambda>_.
           bnd (observe w buttonTexts) (\<lambda>btns.
             if list_ex (friendText w) btns then
               ret (emptyResult\<lparr>status := Some (js ''success''),
                      message := Some (js ''Already friends with this user''),
                      error := None, profile := Some profileName\<rparr>)
             else
               bnd (throw (js ''addFriendButtons is not defined'')) (\<lambda>_ :: unit.
               bnd (waitRandom w 1000 1500) (\<lambda>_.
               bnd (try_catch
                      (bnd (observe w buttonTexts) (\<lambda>btns'. ret (list_ex (sentText w) btns')))
                      (\<lambda>e. ret False)) (\<lambda>requestConfirmed.
               bnd (persistSession w) (\<lambda>_.
               ret (emptyResult\<lparr>status := Some (js ''success''),
                      message := Some (if requestConfirmed
                                       then js ''Friend request sent and confirmed''
                                       else js ''Friend request sent (unconfirmed)''),
                      error := None, profile := Some profileName\<rparr>)))))))))))))))"

definition sendFriendRequest :: "world \<Rightarrow> jsstring \<Rightarrow> actionResult prog" where
  "sendFriendRequest w profileName =
     try_catch (sendFriendRequest_try w profileName)
       (\<lambda>err.
          try_catch
            (bnd (captureScreenshot w (js ''sendFriendRequest-exception'')) (\<lambda>sh.
             ret (emptyResult\<lparr>status := Some (js ''failed''),
                    message := Some (js ''Exception while sending friend request''),
                    error := Some err, screenshotPath := shot_ref sh,
                    profile := Some profileName\<rparr>)))
            (\<lambda>e. ret (emptyResult\<lparr>status := Some (js ''failed''),
                    message := Some (js ''Exception while sending friend request''),
                    error := Some err, profile := Some profileName\<rparr>)))"

definition friend_page :: page where
  "friend_page =
     blank_page\<lparr>query := (\<lambda>sel. if sel = addFriendSelector then Ok (Some 7) else Ok None),
       buttonTexts := Ok [Some (js ''Friends'')]\<rparr>"

definition stranger_page :: page where
  "stranger_page =
     blank_page\<lparr>query := (\<lambda>sel. if sel = addFriendSelector then Ok (Some 7) else Ok None),
       buttonTexts := Ok [Some (js ''Add friend'')]\<rparr>"

text \<open>The interactions of one \<open>captureScreenshot\<close>, started after the trace \<open>tr\<close>:
  none on a page object without \<open>setViewport\<close>.\<close>

definition shotEvents :: "world \<Rightarrow> jsstring \<Rightarrow> event list \<Rightarrow> event list" where
  "shotEvents w label tr =
     (if hasSetViewport w then
        [SetViewport, Sleep 200,
         Screenshot (isoDay w (clock w tr)) (label @ js ''-'' @ decimal (clock w tr) @ js ''.png'')]
      else [])"

text \<open>The world of \<open>still_world\<close> behind a Playwright page.\<close>

definition playwright_world :: "page \<Rightarrow> world" where
  "playwright_world p = (still_world p)\<lparr>hasSetViewport := False\<rparr>"

text \<open>Whether a trace holds a write of the session file.\<close>

definition saved :: "event list \<Rightarrow> bool" where
  "saved tr = list_ex (\<lambda>e. case e of SaveSession n c l \<Rightarrow> True | _ \<Rightarrow> False) tr"

subsection \<open>login\<close>

definition searchSelector :: jsstring where
  "searchSelector = js ''input[type='' @ [0x27] @ js ''search'' @ [0x27] @ js '']''"

text \<open>The visibility test evaluated in the page on the logged-in marker.\<close>

definition is_visible :: "layout \<Rightarrow> bool" where
  "is_visible l =
     (\<not> (display l = js ''none'' \<or> visibility l = js ''hidden''
          \<or> (width l = 0 \<and> height l = 0)))"

definition plainOutcome :: "jsstring \<Rightarrow> loginOutcome" where
  "plainOutcome name =
     \<lparr>o_outcome = Some name, o_captcha = None, o_snippet = None, o_alreadyLoggedIn = None,
      o_success = None\<rparr>"

definition captchaOutcome :: "captchaResult \<Rightarrow> loginOutcome" where
  "captchaOutcome c = (plainOutcome (js ''captcha''))\<lparr>o_captcha := Some c\<rparr>"

definition invalidOutcome :: "jsstring \<Rightarrow> loginOutcome" where
  "invalidOutcome snip = (plainOutcome (js ''invalid_credentials''))\<lparr>o_snippet := Some snip\<rparr>"

text \<open>The three checks of one tick of \<open>waitForLoginOutcome\<close>, each inside its own
  try/catch: \<open>Some\<close> outcome returns from the function, \<open>None\<close> goes on.\<close>

definition successCheck :: "world \<Rightarrow> loginOutcome option prog" where
  "successCheck w =
     try_catch
       (bnd (observe w (\<lambda>p. query p searchSelector)) (\<lambda>loggedInEl.
          case loggedInEl of
            None \<Rightarrow> ret None
          | Some el \<Rightarrow>
              bnd (observe w (\<lambda>p. elemLayout p el)) (\<lambda>l.
                if is_visible l then ret (Some (plainOutcome (js ''success''))) else ret None)))
       (\<lambda>e. ret None)"

definition captchaCheck :: "world \<Rightarrow> loginOutcome option prog" where
  "captchaCheck w =
     try_catch
       (bnd (detectCaptcha w) (\<lambda>captcha.
          if detected captcha then ret (Some (captchaOutcome captcha)) else ret None))
       (\<lambda>e. ret None)"

definition invalidText :: "jsstring \<Rightarrow> bool" where
  "invalidText nb =
     (js_includes nb (js ''incorrect'')
      \<or> js_includes nb (js ''wrong password'')
      \<or> js_includes nb (js ''password you entered is incorrect'')
      \<or> js_includes nb
           ([0x0627, 0x0637, 0x0644, 0x0627, 0x0639, 0x0627, 0x062A] @ js '' ''
            @ [0x0648, 0x0631, 0x0648, 0x062F] @ js '' '' @ [0x0635, 0x062D, 0x06CC, 0x062D]
            @ js '' '' @ [0x0646, 0x0645, 0x06CC, 0x200C, 0x0628, 0x0627, 0x0634, 0x062F])
      \<or> js_includes nb ([0x0631, 0x0645, 0x0632] @ js '' '' @ [0x0639, 0x0628, 0x0648, 0x0631]))"

definition credentialsCheck :: "world \<Rightarrow> loginOutcome option prog" where
  "credentialsCheck w =
     try_catch
       (bnd (observe w bodyText) (\<lambda>body.
          let nb = toLowerCase w (or_empty body) in
          if invalidText nb then ret (Some (invalidOutcome (slice0 800 nb))) else ret None))
       (\<lambda>e. ret None)"

definition pollOnce :: "world \<Rightarrow> loginOutcome option prog" where
  "pollOnce w = orElse (successCheck w) (orElse (captchaCheck w) (credentialsCheck w))"

text \<open>
  The polling loop \<open>while (Date.now() - start < timeoutMs)\<close>. Whether it ends depends
  on the clock of the world, so a run that never leaves the loop is \<open>None\<close>.
\<close>

partial_function (option) pollLoop ::
  "world \<Rightarrow> nat \<Rightarrow> nat \<Rightarrow> ctl \<Rightarrow> (loginOutcome outcome \<times> ctl) option" where
  "pollLoop w start' timeoutMs s =
     (if int (clock w (trace s)) - int start' < int timeoutMs then
        (case pollOnce w s of
           (Ok (Some out), s') \<Rightarrow> Some (Ok out, s')
         | (Ok None, s') \<Rightarrow> pollLoop w start' timeoutMs (s'\<lparr>trace := trace s' @ [Sleep 700]\<rparr>)
         | (Throw e, s') \<Rightarrow> Some (Throw e, s'))
      else Some (Ok (plainOutcome (js ''timeout'')), s))"

definition waitForLoginOutcome ::
  "world \<Rightarrow> nat \<Rightarrow> ctl \<Rightarrow> (loginOutcome outcome \<times> ctl) option" where
  "waitForLoginOutcome w timeoutMs s = pollLoop w (clock w (trace s)) timeoutMs s"

text \<open>\<open>doLoginOnce\<close> up to the click on the login button: \<open>Some\<close> outcome is the
  already-logged-in return, \<open>None\<close> goes on to the polling.\<close>

definition loginForm :: "world \<Rightarrow> jsstring \<Rightarrow> jsstring \<Rightarrow> loginOutcome option prog" where
  "loginForm w email password =
     bnd (act w (Goto (js ''https://www.facebook.com/login''))) (\<lambda>_.
     bnd (observe w (\<lambda>p. query p searchSelector)) (\<lambda>maybeLogged.
     bnd (case maybeLogged of
            None \<Rightarrow> ret False
          | Some el \<Rightarrow>
              try_catch (bnd (observe w (\<lambda>p. elemLayout p el)) (\<lambda>l. ret (is_visible l)))
                (\<lambda>e. ret False)) (\<lambda>visible.
       if visible then
         ret (Some \<lparr>o_outcome = None, o_captcha = None, o_snippet = None,
                    o_alreadyLoggedIn = Some True, o_success = Some True\<rparr>)
       else
         bnd (waitForSelector w (js ''#email'') False 10000) (\<lambda>_.
         bnd (waitForSelector w (js ''#pass'') False 10000) (\<lambda>_.
         bnd (humanTypeDefault w (Selector (js ''#email'')) email) (\<lambda>_.
         bnd (humanTypeDefault w (Selector (js ''#pass'')) password) (\<lambda>_.
         bnd (smallHumanMove w) (\<lambda>_.
         bnd (act w (ClickSelector (js ''[name=login]''))) (\<lambda>_.
         ret None)))))))))"

definition doLoginOnce ::
  "world \<Rightarrow> jsstring \<Rightarrow> jsstring \<Rightarrow> ctl \<Rightarrow> (loginOutcome outcome \<times> ctl) option" where
  "doLoginOnce w email password s =
     (case loginForm w email password s of
        (Ok (Some out), s') \<Rightarrow> Some (Ok out, s')
      | (Ok None, s') \<Rightarrow> waitForLoginOutcome w 20000 s'
      | (Throw e, s') \<Rightarrow> Some (Throw e, s'))"

text \<open>What the body of the retry loop does with an outcome: return a result, or
  \<open>continue\<close> with the attempt counter incremented.\<close>

datatype step = Return actionResult | Continue

definition failure :: "jsstring \<Rightarrow> actionResult" where
  "failure err = emptyResult\<lparr>success := Some False, error := Some err\<rparr>"

text \<open>The backoff before a retry after a captcha; \<open>attempt\<close> is the counter after its
  increment.\<close>

definition captchaBackoff :: "world \<Rightarrow> nat \<Rightarrow> unit prog" where
  "captchaBackoff w attempt =
     bnd (mathRandom w) (\<lambda>r.
     bnd (sleep (real (min 15000 (1000 * 2 ^ attempt)) + of_int \<lfloor>r * 1000\<rfloor>)) (\<lambda>_.
     bnd (swallow (act w ClearStorage)) (\<lambda>_.
     swallow (bnd (observe w cookies) (\<lambda>cs. act w (DeleteCookie cs))))))"

definition decide :: "world \<Rightarrow> nat \<Rightarrow> nat \<Rightarrow> loginOutcome \<Rightarrow> step prog" where
  "decide w maxRetries attempt out =
     (if o_success out = Some True \<or> o_outcome out = Some (js ''success'') then
        bnd (persistSession w) (\<lambda>_.
        ret (Return (emptyResult\<lparr>success := Some True\<rparr>)))
      else if o_alreadyLoggedIn out = Some True then
        bnd (persistSession w) (\<lambda>_.
        ret (Return (emptyResult\<lparr>success := Some True, alreadyLoggedIn := Some True\<rparr>)))
      else if o_outcome out = Some (js ''captcha'')
              \<or> (case o_captcha out of None \<Rightarrow> False | Some c \<Rightarrow> detected c) then
        bnd (captureScreenshot w (js ''login-captcha-'' @ decimal attempt)) (\<lambda>sh.
          if attempt < maxRetries then
            bnd (captchaBackoff w (Suc attempt)) (\<lambda>_. ret Continue)
          else
            ret (Return (emptyResult\<lparr>success := Some False,
                   error := Some (js ''captcha_detected''),
                   screenshotPath := shot_ref sh,
                   detail := map_option CaptchaDetail (o_captcha out)\<rparr>)))
      else if o_outcome out = Some (js ''invalid_credentials'') then
        ret (Return (emptyResult\<lparr>success := Some False,
               error := Some (js ''invalid_credentials''),
               detail := (case o_snippet out of
                            None \<Rightarrow> None
                          | Some sn \<Rightarrow> if sn = [] then None else Some (Snippet sn))\<rparr>))
      else if o_outcome out = Some (js ''timeout'') then
        (if attempt < maxRetries then
           bnd (waitRandom w 1000 1000) (\<lambda>_. ret Continue)
         else ret (Return (failure (js ''timeout''))))
      else
        ret (Return (emptyResult\<lparr>success := Some False,
               error := Some (js ''unknown_outcome''), detail := Some (RawOutcome out)\<rparr>)))"

function loginLoop ::
  "world \<Rightarrow> jsstring \<Rightarrow> jsstring \<Rightarrow> nat \<Rightarrow> nat \<Rightarrow> ctl \<Rightarrow> (actionResult outcome \<times> ctl) option"
where
  "loginLoop w email password maxRetries attempt s =
     (if attempt \<le> maxRetries then
        (case doLoginOnce w email password s of
           None \<Rightarrow> None
         | Some (Throw err, s1) \<Rightarrow> Some (Ok (failure err), s1)
         | Some (Ok out, s1) \<Rightarrow>
             (case decide w maxRetries attempt out s1 of
                (Throw err, s2) \<Rightarrow> Some (Ok (failure err), s2)
              | (Ok (Return r), s2) \<Rightarrow> Some (Ok r, s2)
              | (Ok Continue, s2) \<Rightarrow> loginLoop w email password maxRetries (Suc attempt) s2))
      else Some (Ok (failure (js ''max_retries_exceeded'')), s))"
  by pat_completeness auto

termination
  by (relation "measure (\<lambda>(w, email, password, maxRetries, attempt, s). Suc maxRetries - attempt)")
     auto

declare loginLoop.simps [simp del]

definition login ::
  "world \<Rightarrow> jsstring \<Rightarrow> jsstring \<Rightarrow> nat \<Rightarrow> ctl \<Rightarrow> (actionResult outcome \<times> ctl) option" where
  "login w email password maxRetries = loginLoop w email password maxRetries 0"

definition form_page :: page where
  "form_page =
     blank_page\<lparr>query := (\<lambda>sel. if sel = js ''#email'' \<or> sel = js ''#pass''
                                then Ok (Some 1) else Ok None)\<rparr>"

definition checkpoint_page :: page where
  "checkpoint_page = form_page\<lparr>url := Ok (js ''/checkpoint'')\<rparr>"

definition rejected_page :: page where
  "rejected_page = form_page\<lparr>bodyText := Ok (Some (js ''Incorrect''))\<rparr>"

subsection \<open>findMessageInputHandle\<close>

definition messageInputSelectors :: "jsstring list" where
  "messageInputSelectors =
     [js ''div[contenteditable='' @ [0x27] @ js ''true'' @ [0x27] @ js ''][role='' @ [0x27]
        @ js ''textbox'' @ [0x27] @ js '']'',
      js ''div[role='' @ [0x27] @ js ''textbox'' @ [0x27] @ js ''][contenteditable='' @ [0x27]
        @ js ''true'' @ [0x27] @ js '']'',
      js ''div[data-lexical-editor='' @ [0x27] @ js ''true'' @ [0x27]
        @ js ''][contenteditable='' @ [0x27] @ js ''true'' @ [0x27] @ js '']'',
      js ''div[aria-label='' @ [0x27] @ js ''Message'' @ [0x27] @ js '']'',
      js ''div[aria-label='' @ [0x27] @ js ''Write a message'' @ [0x27] @ js '']'',
      js ''div[aria-label='' @ [0x27] @ [0x067E, 0x06CC, 0x0627, 0x0645] @ [0x27] @ js '']'',
      js ''div[contenteditable='' @ [0x27] @ js ''plaintext-only'' @ [0x27] @ js '']'',
      js ''div[contenteditable='' @ [0x27] @ js ''true'' @ [0x27] @ js '']'',
      js ''textarea'',
      js ''input[type='' @ [0x27] @ js ''text'' @ [0x27] @ js '']'']"

text \<open>\<open>Math.max(0, overallTimeout - (Date.now() - start))\<close>\<close>

definition remainingMs :: "nat \<Rightarrow> nat \<Rightarrow> nat \<Rightarrow> nat" where
  "remainingMs overallTimeout start' now =
     nat (max 0 (int overallTimeout - (int now - int start')))"

text \<open>The loop over the selectors: \<open>Some\<close> handle returns from the function, \<open>None\<close>
  goes on to the fallback scan (also when the time is used up).\<close>

fun trySelectors :: "world \<Rightarrow> nat \<Rightarrow> nat \<Rightarrow> jsstring list \<Rightarrow> elem option prog" where
  "trySelectors w start' overallTimeout [] = ret None"
| "trySelectors w start' overallTimeout (sel # sels) =
     bnd (dateNow w) (\<lambda>now.
       let remaining = remainingMs overallTimeout start' now in
       if remaining = 0 then ret None
       else
         bnd (try_catch (waitForSelector w sel True (min 2000 remaining)) (\<lambda>e. ret None))
           (\<lambda>handle. case handle of
                        Some h \<Rightarrow> ret (Some h)
                      | None \<Rightarrow> trySelectors w start' overallTimeout sels))"

definition nodeVisible :: "node \<Rightarrow> bool" where
  "nodeVisible e =
     (if visibility (n_layout e) = js ''hidden'' \<or> display (n_layout e) = js ''none'' then False
      else if width (n_layout e) = 0 \<and> height (n_layout e) = 0 then False
      else if n_ariaHidden e then False
      else True)"

definition messageCandidate :: "node \<Rightarrow> bool" where
  "messageCandidate e =
     (if \<not> nodeVisible e then False
      else if n_role e = Some (js ''textbox'') then True
      else if n_lexicalEditor e = Some (js ''true'') then True
      else if regex_i_test [js ''message'', [0x067E, 0x06CC, 0x0627, 0x0645], js ''write'']
                (or_empty (n_ariaLabel e)) then True
      else n_contenteditable e \<noteq> None)"

definition messageInputFallback :: "world \<Rightarrow> nat \<Rightarrow> nat \<Rightarrow> elem option prog" where
  "messageInputFallback w start' overallTimeout =
     try_catch
       (bnd (dateNow w) (\<lambda>now.
          let remaining = remainingMs overallTimeout start' now in
          if remaining = 0 then ret None
          else
            bnd (act w (WaitForFunction remaining)) (\<lambda>_.
            bnd (observe w editableNodes) (\<lambda>nodes.
            ret (case filter messageCandidate nodes of
                   [] \<Rightarrow> None
                 | e # es \<Rightarrow> Some (n_elem e))))))
       (\<lambda>e. ret None)"

definition findMessageInputHandle :: "world \<Rightarrow> nat \<Rightarrow> elem option prog" where
  "findMessageInputHandle w overallTimeout =
     bnd (dateNow w) (\<lambda>start'.
     bnd (trySelectors w start' overallTimeout messageInputSelectors) (\<lambda>handle.
       case handle of
         Some h \<Rightarrow> ret (Some h)
       | None \<Rightarrow> messageInputFallback w start' overallTimeout))"

subsection \<open>sendMessage\<close>

definition messagesUrl :: jsstring where
  "messagesUrl = js ''https://www.facebook.com/messages/t/''"

definition loginFieldsSelector :: jsstring where
  "loginFieldsSelector =
     js ''#email, input[name='' @ [0x27] @ js ''email'' @ [0x27] @ js ''], input[type=''
       @ [0x27] @ js ''password'' @ [0x27] @ js '']''"

definition searchSelectors :: "jsstring list" where
  "searchSelectors =
     [js ''input[aria-label='' @ [0x22] @ js ''Search Messenger'' @ [0x22] @ js '']'',
      js ''input[placeholder*='' @ [0x22] @ js ''Search Messenger'' @ [0x22] @ js '']'',
      js ''input[placeholder*='' @ [0x22] @ js ''Search'' @ [0x22] @ js '']'',
      js ''input[aria-label*='' @ [0x22] @ js ''Search'' @ [0x22] @ js '']'',
      js ''input[type='' @ [0x22] @ js ''search'' @ [0x22] @ js '']'',
      js ''input[role='' @ [0x22] @ js ''combobox'' @ [0x22] @ js '']'']"

text \<open>The first selector of the list that finds an element; a fault of one query is
  skipped.\<close>

fun findSearchHandle :: "world \<Rightarrow> jsstring list \<Rightarrow> elem option prog" where
  "findSearchHandle w [] = ret None"
| "findSearchHandle w (sel # sels) =
     bnd (try_catch (observe w (\<lambda>p. query p sel)) (\<lambda>e. ret None)) (\<lambda>h.
       case h of
         Some x \<Rightarrow> ret (Some x)
       | None \<Rightarrow> findSearchHandle w sels)"

definition rowXpath :: "world \<Rightarrow> jsstring \<Rightarrow> jsstring" where
  "rowXpath w recipient =
     js ''xpath=//div[@role='' @ [0x27] @ js ''option'' @ [0x27] @ js '' or @role='' @ [0x27]
       @ js ''row'' @ [0x27] @ js '' or @role='' @ [0x27] @ js ''listitem'' @ [0x27]
       @ js '']//span[contains(normalize-space(.), '' @ jsonStringify w recipient @ js '')]''"

text \<open>The loop over the result rows: the first row whose ancestor lookup does not fault
  is clicked (its clickable ancestor, or the span itself) and the loop ends.\<close>

fun openFirstRow :: "world \<Rightarrow> elem list \<Rightarrow> bool prog" where
  "openFirstRow w [] = ret False"
| "openFirstRow w (rowSpan # rowSpans) =
     bnd (try_catch
            (bnd (observe w (\<lambda>p. closestClickable p rowSpan)) (\<lambda>ancestorEl.
               case ancestorEl of
                 Some a \<Rightarrow> bnd (swallow (act w (Click a))) (\<lambda>_. ret True)
               | None \<Rightarrow> bnd (swallow (act w (Click rowSpan))) (\<lambda>_. ret True)))
            (\<lambda>e. ret False)) (\<lambda>opened.
       if opened then ret True else openFirstRow w rowSpans)"

definition messengerSearch :: "world \<Rightarrow> jsstring \<Rightarrow> elem \<Rightarrow> unit prog" where
  "messengerSearch w recipient searchHandle =
     bnd (swallow (act w (TripleClick searchHandle))) (\<lambda>_.
     bnd (swallow (act w (KeyPress (js ''Backspace'')))) (\<lambda>_.
     bnd (humanTypeDefault w (Handle (Some searchHandle)) recipient) (\<lambda>_.
     bnd (swallow (act w (KeyPress (js ''Enter'')))) (\<lambda>_.
     bnd (waitRandom w 1200 2200) (\<lambda>_.
     bnd (observe w (\<lambda>p. queryAll p (rowXpath w recipient))) (\<lambda>rowSpans.
       if rowSpans \<noteq> [] then bnd (openFirstRow w rowSpans) (\<lambda>opened. ret ())
       else ret ()))))))"

definition chatInputSelector :: jsstring where
  "chatInputSelector =
     js ''div[contenteditable='' @ [0x27] @ js ''true'' @ [0x27] @ js ''][role='' @ [0x27]
       @ js ''textbox'' @ [0x27] @ js ''], div[aria-label='' @ [0x27] @ js ''Message''
       @ [0x27] @ js '']''"

definition globalCardXpath :: "world \<Rightarrow> jsstring \<Rightarrow> jsstring" where
  "globalCardXpath w recipient =
     js ''xpath=//div[.//span[contains(normalize-space(.), '' @ jsonStringify w recipient
       @ js '')] or .//a//span[contains(normalize-space(.), '' @ jsonStringify w recipient
       @ js '')]]''"

definition clickableSelector :: jsstring where
  "clickableSelector =
     js ''a, button, div[role='' @ [0x22] @ js ''button'' @ [0x22] @ js ''], span[role=''
       @ [0x22] @ js ''button'' @ [0x22] @ js '']''"

definition messageWord :: "jsstring \<Rightarrow> bool" where
  "messageWord txt =
     (txt \<noteq> [] \<and>
      (js_includes txt [0x067E, 0x06CC, 0x0627, 0x0645]
       \<or> js_includes txt (js ''message'')
       \<or> js_includes txt (js ''send message'')
       \<or> js_includes txt [0x067E, 0x06CC, 0x063A, 0x0627, 0x0645]))"

text \<open>One candidate inside a card, in its own try/catch: whether it was clicked.\<close>

definition tryCandidate :: "world \<Rightarrow> elem \<Rightarrow> bool prog" where
  "tryCandidate w c =
     try_catch
       (bnd (observe w (\<lambda>p. elemTexts p c)) (\<lambda>(innerText, textContent).
        bnd (observe w (\<lambda>p. elemHref p c)) (\<lambda>hrefAttr.
          let txt = trim (toLowerCase w (or_empty innerText));
              href = or_empty hrefAttr
          in if messageWord txt then bnd (swallow (act w (Click c))) (\<lambda>_. ret True)
             else if href \<noteq> [] \<and> js_includes href (js ''/messages/t/'') then
               bnd (swallow (act w (Click c))) (\<lambda>_. ret True)
             else ret False)))
       (\<lambda>e. ret False)"

fun scanCandidates :: "world \<Rightarrow> elem list \<Rightarrow> bool prog" where
  "scanCandidates w [] = ret False"
| "scanCandidates w (c # cs) =
     bnd (tryCandidate w c) (\<lambda>clicked. if clicked then ret True else scanCandidates w cs)"

fun scanCards :: "world \<Rightarrow> elem list \<Rightarrow> bool prog" where
  "scanCards w [] = ret False"
| "scanCards w (crd # crds) =
     bnd (try_catch
            (bnd (observe w (\<lambda>p. children p crd clickableSelector)) (scanCandidates w))
            (\<lambda>e. ret False)) (\<lambda>clicked.
       if clicked then ret True else scanCards w crds)"

definition failureShot :: "jsstring \<Rightarrow> shot \<Rightarrow> actionResult" where
  "failureShot err sh = (failure err)\<lparr>screenshotPath := shot_ref sh\<rparr>"

text \<open>The global search fallback: \<open>Some\<close> result returns from \<open>sendMessage\<close>.\<close>

definition globalSearch :: "world \<Rightarrow> jsstring \<Rightarrow> actionResult option prog" where
  "globalSearch w recipient =
     bnd (await (encodeURIComponent w recipient)) (\<lambda>q.
     bnd (swallow (act w (Goto (js ''https://www.facebook.com/search/top?q='' @ q)))) (\<lambda>_.
     bnd (waitRandom w 1200 1600) (\<lambda>_.
     bnd (observe w (\<lambda>p. queryAll p (globalCardXpath w recipient))) (\<lambda>cards.
     bnd (scanCards w cards) (\<lambda>clicked.
       if \<not> clicked then
         bnd (captureScreenshot w (js ''no-clickable-row'')) (\<lambda>sh.
         ret (Some (failureShot (js ''no_clickable_row'') sh)))
       else bnd (waitRandom w 800 1200) (\<lambda>_. ret None))))))"

text \<open>What follows the login check.\<close>

definition sendMessage_rest :: "world \<Rightarrow> jsstring \<Rightarrow> jsstring \<Rightarrow> actionResult prog" where
  "sendMessage_rest w recipient text =
     bnd (try_catch
            (bnd (waitForSelector w
                    (js ''div[role='' @ [0x27] @ js ''main'' @ [0x27] @ js ''], div[role=''
                       @ [0x27] @ js ''dialog'' @ [0x27] @ js '']'') False 15000)
               (\<lambda>_. ret ()))
            (\<lambda>e. ret ())) (\<lambda>_.
     bnd (findSearchHandle w searchSelectors) (\<lambda>searchHandle.
     bnd (case searchHandle of
            Some h \<Rightarrow> messengerSearch w recipient h
          | None \<Rightarrow> ret ()) (\<lambda>_.
     bnd (observe w (\<lambda>p. query p chatInputSelector)) (\<lambda>inputExists.
     bnd (case inputExists of
            None \<Rightarrow> globalSearch w recipient
          | Some h \<Rightarrow> ret None) (\<lambda>early.
       case early of
         Some r \<Rightarrow> ret r
       | None \<Rightarrow>
           bnd (findMessageInputHandle w 10000) (\<lambda>messageHandle.
             case messageHandle of
               None \<Rightarrow>
                 bnd (captureScreenshot w (js ''no-message-input'')) (\<lambda>sh.
                 ret (failureShot (js ''no_message_input'') sh))
             | Some h \<Rightarrow>
                 bnd (act w (Focus h)) (\<lambda>_.
                 bnd (smallHumanMove w) (\<lambda>_.
                 bnd (humanTypeDefault w (Handle (Some h)) text) (\<lambda>_.
                 bnd (act w (KeyPress (js ''Enter''))) (\<lambda>_.
                 bnd (waitRandom w 400 700) (\<lambda>_.
                 bnd (persistSession w) (\<lambda>_.
                 ret (emptyResult\<lparr>success := Some True\<rparr>)))))))))))))"

text \<open>What follows the navigation to the messaging surface: the login check first.\<close>

definition sendMessage_arrived :: "world \<Rightarrow> jsstring \<Rightarrow> jsstring \<Rightarrow> actionResult prog" where
  "sendMessage_arrived w recipient text =
     bnd (observe w url) (\<lambda>loggedUrl.
     bnd (observe w (\<lambda>p. query p loginFieldsSelector)) (\<lambda>loginFields.
       case loginFields of
         Some h \<Rightarrow>
           bnd (captureScreenshot w (js ''not-logged-in'')) (\<lambda>sh.
           ret (failureShot (js ''not_logged_in'') sh))
       | None \<Rightarrow> sendMessage_rest w recipient text))"

definition sendMessage_try :: "world \<Rightarrow> jsstring \<Rightarrow> jsstring \<Rightarrow> actionResult prog" where
  "sendMessage_try w recipient text =
     bnd (waitRandom w 1000 2000) (\<lambda>_.
     bnd (throttle w) (\<lambda>_.
     bnd (act w (Goto messagesUrl)) (\<lambda>_.
     sendMessage_arrived w recipient text)))"

definition sendMessage :: "world \<Rightarrow> jsstring \<Rightarrow> jsstring \<Rightarrow> actionResult prog" where
  "sendMessage w recipient text =
     try_catch (sendMessage_try w recipient text)
       (\<lambda>err.
          try_catch
            (bnd (captureScreenshot w (js ''sendMessage-exception'')) (\<lambda>sh.
             ret (failureShot err sh)))
            (\<lambda>e. ret (failure err)))"

text \<open>Whether an event is a pause.\<close>

definition is_sleep :: "event \<Rightarrow> bool" where
  "is_sleep e = (case e of Sleep d \<Rightarrow> True | _ \<Rightarrow> False)"

definition expired_page :: page where
  "expired_page =
     blank_page\<lparr>query := (\<lambda>sel. if sel = loginFieldsSelector then Ok (Some 3) else Ok None)\<rparr>"

section \<open>Verification\<close>

subsection \<open>Running programs\<close>

lemma bnd_ret [simp]: "bnd (ret x) f s = f x s"
  by (simp add: bnd_def ret_def)

lemma bnd_throw [simp]: "bnd (throw e) f s = (Throw e, s)"
  by (simp add: bnd_def throw_def)

lemma bnd_await_Ok [simp]: "bnd (await (Ok x)) f s = f x s"
  by (simp add: bnd_def await_def)

lemma bnd_await_Throw [simp]: "bnd (await (Throw e)) f s = (Throw e, s)"
  by (simp add: bnd_def await_def)

lemma bnd_observe:
  "bnd (observe w q) f s =
     (case q (view w (trace s)) of Ok x \<Rightarrow> f x s | Throw e \<Rightarrow> (Throw e, s))"
  by (simp add: bnd_def observe_def split: outcome.splits)

lemma bnd_result:
  "m s = (Ok x, s1) \<Longrightarrow> bnd m f s = f x s1"
  "m s = (Throw e, s1) \<Longrightarrow> bnd m f s = (Throw e, s1)"
  by (simp_all add: bnd_def)

lemma try_catch_result:
  "m s = (Ok x, s1) \<Longrightarrow> try_catch m h s = (Ok x, s1)"
  "m s = (Throw e, s1) \<Longrightarrow> try_catch m h s = h e s1"
  by (simp_all add: try_catch_def)

lemma orElse_result:
  "m s = (Ok (Some r), s1) \<Longrightarrow> orElse m n s = (Ok (Some r), s1)"
  "m s = (Ok None, s1) \<Longrightarrow> orElse m n s = n s1"
  "m s = (Throw e, s1) \<Longrightarrow> orElse m n s = (Throw e, s1)"
  by (simp_all add: orElse_def bnd_def ret_def)

subsection \<open>Captcha detection\<close>

text \<open>A screenshot never throws: its own handler turns a fault into
  \<open>success: false\<close>.\<close>

lemma captureScreenshot_ok: "\<exists>sh s'. captureScreenshot w l s = (Ok sh, s')"
  by (simp add: captureScreenshot_def setViewport_def bnd_def dateNow_def try_catch_def
      swallow_def act_def sleep_def ret_def throw_def Let_def
      split: option.splits prod.splits outcome.splits)

lemma then_found:
  "\<exists>sh s'. bnd (captureScreenshot w l) (\<lambda>sh. ret (Some (found m x sn sh))) s
      = (Ok (Some (found m x sn sh)), s')"
proof -
  obtain sh s' where "captureScreenshot w l s = (Ok sh, s')"
    using captureScreenshot_ok by blast
  then have "bnd (captureScreenshot w l) (\<lambda>sh. ret (Some (found m x sn sh))) s
      = (Ok (Some (found m x sn sh)), s')"
    by (simp add: bnd_def ret_def)
  then show ?thesis by blast
qed

lemma then_found_detected:
  assumes "bnd (captureScreenshot w l) (\<lambda>sh. ret (Some (found m x sn sh))) s = (Ok (Some r), s')"
  shows "detected r \<and> method' r = Some m \<and> match r = Some x \<and> snippet r = sn"
  using assms by (auto simp: bnd_def ret_def found_def split: prod.splits outcome.splits)

lemma urlCheck_detected: "urlCheck w s = (Ok (Some r), s') \<Longrightarrow> detected r"
  unfolding urlCheck_def
  by (auto simp: bnd_def[of "try_catch _ _"] try_catch_def observe_def ret_def
       dest: then_found_detected split: prod.splits outcome.splits if_splits)

lemma orElse_Some:
  "orElse m n s = (Ok (Some r), s') \<Longrightarrow>
     (\<exists>s1. m s = (Ok (Some r), s')) \<or> (\<exists>s1. m s = (Ok None, s1) \<and> n s1 = (Ok (Some r), s'))"
  by (auto simp: orElse_def bnd_def ret_def split: prod.splits outcome.splits option.splits)

lemma frameText_detected:
  "try_catch
     (bnd (await b) (\<lambda>txt.
        let n = normalize w (or_empty txt) in
        if n = [] then ret None
        else if text_hit w n then
          bnd (captureScreenshot w l) (\<lambda>sh. ret (Some (found m fu (Some (slice0 2000 n)) sh)))
        else ret None))
     (\<lambda>e. ret None) s = (Ok (Some r), s') \<Longrightarrow> detected r"
  by (auto simp: try_catch_def bnd_def[of "await _"] await_def ret_def Let_def
       dest: then_found_detected split: prod.splits outcome.splits if_splits)

lemma scanFrames_detected: "scanFrames w fs s = (Ok (Some r), s') \<Longrightarrow> detected r"
proof (induction fs arbitrary: s)
  case Nil
  then show ?case by (simp add: ret_def)
next
  case (Cons f fs)
  show ?case
  proof (cases "furl f")
    case (Throw e)
    with Cons.prems show ?thesis by simp
  next
    case (Ok fu)
    show ?thesis
    proof (cases "frame_url_hit fu")
      case True
      with Ok Cons.prems show ?thesis
        by (auto dest: then_found_detected)
    next
      case False
      with Ok Cons.prems show ?thesis
        by (auto dest!: orElse_Some dest: frameText_detected Cons.IH)
    qed
  qed
qed

lemma frameCheck_detected: "frameCheck w s = (Ok (Some r), s') \<Longrightarrow> detected r"
  by (auto simp: frameCheck_def try_catch_def bnd_def observe_def ret_def
       dest: scanFrames_detected split: prod.splits outcome.splits)

lemma selectorStep_detected: "selectorStep w sel s = (Ok (Some r), s') \<Longrightarrow> detected r"
  by (auto simp: selectorStep_def try_catch_def bnd_def[of "observe _ _"] observe_def ret_def Let_def
       dest: then_found_detected split: prod.splits outcome.splits option.splits if_splits)

lemma scanSelectors_detected: "scanSelectors w sels s = (Ok (Some r), s') \<Longrightarrow> detected r"
  by (induction sels arbitrary: s)
     (auto simp: ret_def dest!: orElse_Some dest: selectorStep_detected)

lemma scanPatterns_detected: "scanPatterns w nb pats s = (Ok (Some r), s') \<Longrightarrow> detected r"
  by (induction pats arbitrary: s)
     (auto simp: ret_def Let_def dest: then_found_detected split: if_splits)

lemma bodyCheck_detected: "bodyCheck w s = (Ok (Some r), s') \<Longrightarrow> detected r"
  by (auto simp: bodyCheck_def try_catch_def bnd_def observe_def ret_def Let_def
       dest: scanPatterns_detected split: prod.splits outcome.splits if_splits)

lemma detectCaptcha_cases:
  assumes "detectCaptcha w s = (Ok r, s')"
  shows "detected r \<or> r = not_detected"
proof -
  let ?body = "orElse (urlCheck w) (orElse (frameCheck w)
                 (orElse (scanSelectors w SELECTOR_CANDIDATES) (bodyCheck w)))"
  obtain x s1 where b: "?body s = (x, s1)" by (cases "?body s")
  show ?thesis
  proof (cases x)
    case (Throw e)
    with assms b show ?thesis
      by (simp add: detectCaptcha_def try_catch_def bnd_def ret_def)
  next
    case (Ok y)
    show ?thesis
    proof (cases y)
      case None
      with Ok assms b show ?thesis
        by (simp add: detectCaptcha_def try_catch_def bnd_def ret_def)
    next
      case (Some r')
      with Ok b have "detected r'"
        by (auto dest!: orElse_Some
            dest: urlCheck_detected frameCheck_detected scanSelectors_detected bodyCheck_detected)
      with Some Ok assms b show ?thesis
        by (simp add: detectCaptcha_def try_catch_def bnd_def ret_def)
    qed
  qed
qed

text \<open>
  Claim C5. Every result of \<open>detectCaptcha\<close> with \<open>detected = false\<close> has no method and
  no match: the source returns the object \<open>{ detected: false }\<close>, whose other fields
  are undefined, which the record renders as \<open>None\<close>.
\<close>

theorem detectCaptcha_not_detected_shape:
  "detectCaptcha w s = (Ok r, s') \<and> \<not> detected r \<longrightarrow> method' r = None \<and> match r = None"
  using detectCaptcha_cases[of w s r s'] by (auto simp: not_detected_def)

lemma not_checkpoint_empty [simp]: "\<not> is_checkpoint_url []"
  by (simp add: is_checkpoint_url_def)

lemma urlCheck_fault:
  "url (view w (trace s)) = Throw e \<Longrightarrow> urlCheck w s = (Ok None, s)"
  by (simp add: urlCheck_def bnd_def try_catch_def observe_def ret_def)

lemma urlCheck_no_match:
  "url (view w (trace s)) = Ok u \<Longrightarrow> \<not> is_checkpoint_url u \<Longrightarrow> urlCheck w s = (Ok None, s)"
  by (simp add: urlCheck_def bnd_def try_catch_def observe_def ret_def)

lemma urlCheck_quiet:
  assumes "\<forall>u. url (view w (trace s)) = Ok u \<longrightarrow> \<not> is_checkpoint_url u"
  shows "urlCheck w s = (Ok None, s)"
  using assms by (cases "url (view w (trace s))") (auto intro: urlCheck_fault urlCheck_no_match)

lemma frameCheck_fault:
  "frames (view w (trace s)) = Throw e \<Longrightarrow> frameCheck w s = (Ok None, s)"
  by (simp add: frameCheck_def bnd_def try_catch_def observe_def ret_def)

lemma frameCheck_url_fault:
  "frames (view w (trace s)) = Ok (f # fs) \<Longrightarrow> furl f = Throw e \<Longrightarrow>
     frameCheck w s = (Ok None, s)"
  by (simp add: frameCheck_def bnd_observe try_catch_def ret_def)

lemma frame_text_silent:
  assumes "\<not> frame_text_hit w g"
  shows "try_catch
     (bnd (await (fbody g)) (\<lambda>txt.
        let n = normalize w (or_empty txt) in
        if n = [] then ret None
        else if text_hit w n then
          bnd (captureScreenshot w l) (\<lambda>sh. ret (Some (found m fu (Some (slice0 2000 n)) sh)))
        else ret None))
     (\<lambda>e. ret None) s = (Ok None, s)"
  using assms
  by (cases "fbody g") (auto simp: frame_text_hit_def try_catch_def ret_def Let_def)

lemma scanFrames_skip:
  assumes "furl g = Ok gu" and "\<not> frame_url_hit gu" and "\<not> frame_text_hit w g"
  shows "scanFrames w (g # fs) s = scanFrames w fs s"
  using assms by (simp add: orElse_result(2)[OF frame_text_silent])

lemma scanFrames_text_fault:
  assumes "furl g = Ok gu" and "\<not> frame_url_hit gu" and "fbody g = Throw e"
  shows "scanFrames w (g # fs) s = scanFrames w fs s"
  using assms by (intro scanFrames_skip[of g gu]) (simp_all add: frame_text_hit_def)

lemma scanFrames_pre:
  assumes "\<forall>g\<in>set pre. (\<exists>gu. furl g = Ok gu \<and> \<not> frame_url_hit gu) \<and> \<not> frame_text_hit w g"
  shows "scanFrames w (pre @ rest) s = scanFrames w rest s"
  using assms
proof (induction pre)
  case Nil
  then show ?case by simp
next
  case (Cons g pre)
  then obtain gu where "furl g = Ok gu" "\<not> frame_url_hit gu" "\<not> frame_text_hit w g"
    by auto
  then have "scanFrames w (g # (pre @ rest)) s = scanFrames w (pre @ rest) s"
    by (rule scanFrames_skip)
  with Cons show ?case by simp
qed

lemma scanFrames_url_first:
  assumes "furl f = Ok fu" and "frame_url_hit fu"
  shows "\<exists>sh s'. scanFrames w (f # fs) s = (Ok (Some (found (js ''frame_url'') fu None sh)), s')"
  using assms then_found[of w "js ''captcha-by-frame-url''" "js ''frame_url''" fu None s]
  by simp

lemma scanFrames_text_first:
  assumes "furl f = Ok fu" and "\<not> frame_url_hit fu" and "fbody f = Ok txt"
    and "normalize w (or_empty txt) = n" and "n \<noteq> []" and "text_hit w n"
  shows "\<exists>sh s'. scanFrames w (f # fs) s
           = (Ok (Some (found (js ''frame_text'') fu (Some (slice0 2000 n)) sh)), s')"
proof -
  obtain sh s' where
    "bnd (captureScreenshot w (js ''captcha-by-frame-text''))
       (\<lambda>sh. ret (Some (found (js ''frame_text'') fu (Some (slice0 2000 n)) sh))) s
      = (Ok (Some (found (js ''frame_text'') fu (Some (slice0 2000 n)) sh)), s')"
    using then_found by blast
  with assms have "scanFrames w (f # fs) s
           = (Ok (Some (found (js ''frame_text'') fu (Some (slice0 2000 n)) sh)), s')"
    by (simp add: orElse_def try_catch_def bnd_def ret_def await_def Let_def)
  then show ?thesis by blast
qed

lemma detectCaptcha_from_frames:
  assumes "urlCheck w s = (Ok None, s)"
    and "frames (view w (trace s)) = Ok fs"
    and "scanFrames w fs s = (Ok (Some r), s')"
  shows "detectCaptcha w s = (Ok r, s')"
proof -
  have "frameCheck w s = (Ok (Some r), s')"
    using assms(2,3) by (simp add: frameCheck_def bnd_observe try_catch_def)
  then show ?thesis
    using assms(1)
    by (simp add: detectCaptcha_def orElse_result bnd_result try_catch_result ret_def)
qed

lemma selectorStep_fault:
  "query (view w (trace s)) sel = Throw e \<Longrightarrow> selectorStep w sel s = (Ok None, s)"
  by (simp add: selectorStep_def bnd_observe try_catch_def ret_def)

lemma selectorStep_absent:
  "query (view w (trace s)) sel = Ok None \<Longrightarrow> selectorStep w sel s = (Ok None, s)"
  by (simp add: selectorStep_def bnd_observe try_catch_def ret_def)

lemma scanSelectors_quiet:
  assumes "\<forall>sel\<in>set sels. query (view w (trace s)) sel = Ok None
             \<or> (\<exists>e. query (view w (trace s)) sel = Throw e)"
  shows "scanSelectors w sels s = (Ok None, s)"
  using assms
  by (induction sels)
     (auto simp: ret_def orElse_result(2)[OF selectorStep_fault] orElse_result(2)[OF selectorStep_absent])

lemma bodyCheck_fault:
  "toLowerCase w [] = [] \<Longrightarrow> bodyText (view w (trace s)) = Throw e \<Longrightarrow>
     bodyCheck w s = (Ok None, s)"
  by (simp add: bodyCheck_def bnd_def try_catch_def observe_def ret_def normalize_def trim_def)

lemma bodyCheck_empty:
  "toLowerCase w [] = [] \<Longrightarrow> bodyText (view w (trace s)) = Ok None \<Longrightarrow>
     bodyCheck w s = (Ok None, s)"
  by (simp add: bodyCheck_def bnd_def try_catch_def observe_def ret_def normalize_def trim_def
      or_empty_def)

lemma detectCaptcha_quiet:
  assumes "urlCheck w s = (Ok None, s)" and "frameCheck w s = (Ok None, s)"
    and "scanSelectors w SELECTOR_CANDIDATES s = (Ok None, s)" and "bodyCheck w s = (Ok None, s)"
  shows "detectCaptcha w s = (Ok not_detected, s)"
  using assms
  by (simp add: detectCaptcha_def orElse_result bnd_result try_catch_result ret_def)

lemma detectCaptcha_total: "\<exists>r s'. detectCaptcha w s = (Ok r, s')"
  by (auto simp: detectCaptcha_def try_catch_def ret_def split: prod.splits outcome.splits)

lemma frameCheck_empty:
  "frames (view w (trace s)) = Ok [] \<Longrightarrow> frameCheck w s = (Ok None, s)"
  by (simp add: frameCheck_def bnd_observe try_catch_def ret_def)

lemma facebook_not_checkpoint: "\<not> is_checkpoint_url (js ''https://www.facebook.com/'')"
  by (simp add: is_checkpoint_url_def regex_i_test_def canon_def js_def)

lemma blank_not_widget: "\<not> frame_url_hit (js ''about:blank'')"
  by (simp add: frame_url_hit_def FRAME_PATTERNS_def regex_i_test_def canon_def js_def)

lemma recaptcha_widget: "frame_url_hit (js ''https://www.google.com/recaptcha/api2/anchor'')"
  by (simp add: frame_url_hit_def FRAME_PATTERNS_def regex_i_test_def canon_def js_def)

lemma security_check_normal:
  "normalize (still_world p) (js ''Security  Check'') = js ''security check''"
  by (simp add: normalize_def still_world_def ascii_lower_def trim_def is_space_def js_def)

lemma text_hit_EN:
  "p \<in> set TEXT_PATTERNS_EN \<Longrightarrow> js_includes n (normalize w p) \<Longrightarrow> text_hit w n"
  by (auto simp: text_hit_def list_ex_iff)

lemma security_check_hit: "text_hit (still_world p) (js ''security check'')"
proof (rule text_hit_EN[where p = "js ''security check''"])
  show "js ''security check'' \<in> set TEXT_PATTERNS_EN"
    by (simp add: TEXT_PATTERNS_EN_def js_def)
  have "normalize (still_world p) (js ''security check'') = js ''security check''"
    by (simp add: normalize_def still_world_def ascii_lower_def trim_def is_space_def js_def)
  then show "js_includes (js ''security check'') (normalize (still_world p) (js ''security check''))"
    by (simp add: js_def)
qed

lemma blank_quiet: "detectCaptcha (still_world blank_page) start = (Ok not_detected, start)"
proof (rule detectCaptcha_quiet)
  show "urlCheck (still_world blank_page) start = (Ok None, start)"
    by (rule urlCheck_no_match[where u = "js ''https://www.facebook.com/''"])
       (simp_all add: still_world_def blank_page_def facebook_not_checkpoint)
  show "frameCheck (still_world blank_page) start = (Ok None, start)"
    by (rule frameCheck_empty) (simp add: still_world_def blank_page_def)
  show "scanSelectors (still_world blank_page) SELECTOR_CANDIDATES start = (Ok None, start)"
    by (rule scanSelectors_quiet) (simp add: still_world_def blank_page_def)
  show "bodyCheck (still_world blank_page) start = (Ok None, start)"
    by (rule bodyCheck_empty) (simp_all add: still_world_def blank_page_def ascii_lower_def)
qed

theorem detectCaptcha_not_detected_shape_witness:
  "detectCaptcha (still_world blank_page) start = (Ok not_detected, start)
   \<and> \<not> detected not_detected \<and> method' not_detected = None \<and> match not_detected = None"
  using detectCaptcha_not_detected_shape[of "still_world blank_page" start not_detected start]
    blank_quiet
  by (simp add: not_detected_def)

text \<open>
  Claim C4, amended. The top-level URL is no checkpoint address and some frame's
  address matches a challenge-widget pattern. Then \<open>detectCaptcha\<close> reports
  \<open>frame_url\<close> with that address, provided every frame listed before it has an
  address that reads without fault and matches no pattern, and no readable text with
  a challenge phrase. The text of the matching frame itself and of the frames after
  it does not matter. Frames are examined one at a time, address first, then text, so
  an earlier frame's text wins over a later frame's address.
\<close>

theorem detectCaptcha_frame_url_before_text:
  assumes "\<forall>u. url (view w (trace s)) = Ok u \<longrightarrow> \<not> is_checkpoint_url u"
    and "frames (view w (trace s)) = Ok (pre @ f # post)"
    and "furl f = Ok fu" and "frame_url_hit fu"
    and "\<forall>g\<in>set pre. (\<exists>gu. furl g = Ok gu \<and> \<not> frame_url_hit gu) \<and> \<not> frame_text_hit w g"
  shows "\<exists>r s'. detectCaptcha w s = (Ok r, s') \<and> detected r
           \<and> method' r = Some (js ''frame_url'') \<and> match r = Some fu"
proof -
  obtain sh s' where
    "scanFrames w (f # post) s = (Ok (Some (found (js ''frame_url'') fu None sh)), s')"
    using scanFrames_url_first[OF assms(3,4)] by blast
  then have "scanFrames w (pre @ f # post) s
      = (Ok (Some (found (js ''frame_url'') fu None sh)), s')"
    using scanFrames_pre[OF assms(5)] by simp
  then have "detectCaptcha w s = (Ok (found (js ''frame_url'') fu None sh), s')"
    using urlCheck_quiet[OF assms(1)] assms(2) by (rule_tac detectCaptcha_from_frames)
  then show ?thesis by (auto simp: found_def)
qed

theorem detectCaptcha_frame_url_before_text_witness:
  "\<exists>r s'. detectCaptcha (still_world widget_page) start = (Ok r, s') \<and> detected r
     \<and> method' r = Some (js ''frame_url'')
     \<and> match r = Some (js ''https://www.google.com/recaptcha/api2/anchor'')"
proof (rule detectCaptcha_frame_url_before_text[where
      pre = "[\<lparr>furl = Ok (js ''about:blank''), fbody = Throw (js ''cross-origin'')\<rparr>]"
      and f = "\<lparr>furl = Ok (js ''https://www.google.com/recaptcha/api2/anchor''),
                fbody = Ok (Some (js ''Security  Check''))\<rparr>"
      and post = "[]"])
  show "\<forall>u. url (view (still_world widget_page) (trace start)) = Ok u \<longrightarrow> \<not> is_checkpoint_url u"
    by (simp add: still_world_def widget_page_def blank_page_def facebook_not_checkpoint)
  show "frames (view (still_world widget_page) (trace start)) =
      Ok ([\<lparr>furl = Ok (js ''about:blank''), fbody = Throw (js ''cross-origin'')\<rparr>] @
          \<lparr>furl = Ok (js ''https://www.google.com/recaptcha/api2/anchor''),
            fbody = Ok (Some (js ''Security  Check''))\<rparr> # [])"
    by (simp add: still_world_def widget_page_def blank_page_def)
  show "frame_url_hit (js ''https://www.google.com/recaptcha/api2/anchor'')"
    by (rule recaptcha_widget)
  show "\<forall>g\<in>set [\<lparr>furl = Ok (js ''about:blank''), fbody = Throw (js ''cross-origin'')\<rparr>].
      (\<exists>gu. furl g = Ok gu \<and> \<not> frame_url_hit gu) \<and> \<not> frame_text_hit (still_world widget_page) g"
    by (simp add: blank_not_widget frame_text_hit_def)
qed simp

text \<open>
  Claim C4 as stated fails: the URL is no checkpoint address, the second frame is a
  reCAPTCHA widget, and the result is \<open>frame_text\<close>, from the first frame's text.
\<close>

theorem detectCaptcha_frame_text_first_counterexample:
  "url two_frames = Ok (js ''https://www.facebook.com/'')
   \<and> \<not> is_checkpoint_url (js ''https://www.facebook.com/'')
   \<and> frames two_frames = Ok
        [\<lparr>furl = Ok (js ''about:blank''), fbody = Ok (Some (js ''Security  Check''))\<rparr>,
         \<lparr>furl = Ok (js ''https://www.google.com/recaptcha/api2/anchor''),
          fbody = Throw (js ''cross-origin'')\<rparr>]
   \<and> frame_url_hit (js ''https://www.google.com/recaptcha/api2/anchor'')
   \<and> map_option method' (returned (detectCaptcha (still_world two_frames) start))
        = Some (Some (js ''frame_text''))"
proof -
  let ?w = "still_world two_frames"
  let ?f = "\<lparr>furl = Ok (js ''about:blank''), fbody = Ok (Some (js ''Security  Check''))\<rparr>"
  let ?g = "\<lparr>furl = Ok (js ''https://www.google.com/recaptcha/api2/anchor''),
             fbody = Throw (js ''cross-origin'')\<rparr>"
  have u: "urlCheck ?w start = (Ok None, start)"
    by (rule urlCheck_no_match[where u = "js ''https://www.facebook.com/''"])
       (simp_all add: still_world_def two_frames_def blank_page_def facebook_not_checkpoint)
  have fr: "frames (view ?w (trace start)) = Ok [?f, ?g]"
    by (simp add: still_world_def two_frames_def blank_page_def)
  have n: "normalize ?w (or_empty (Some (js ''Security  Check''))) = js ''security check''"
    by (simp add: or_empty_def security_check_normal)
  have ne: "js ''security check'' \<noteq> []"
    by (simp add: js_def)
  have "\<exists>sh s'. scanFrames ?w (?f # [?g]) start
      = (Ok (Some (found (js ''frame_text'') (js ''about:blank'')
            (Some (slice0 2000 (js ''security check''))) sh)), s')"
    by (rule scanFrames_text_first[OF _ blank_not_widget _ n ne security_check_hit]) simp_all
  then obtain sh s' where sc: "scanFrames ?w [?f, ?g] start
      = (Ok (Some (found (js ''frame_text'') (js ''about:blank'')
            (Some (slice0 2000 (js ''security check''))) sh)), s')"
    by blast
  have "detectCaptcha ?w start
      = (Ok (found (js ''frame_text'') (js ''about:blank'')
            (Some (slice0 2000 (js ''security check''))) sh), s')"
    by (rule detectCaptcha_from_frames[OF u fr sc])
  then have "map_option method' (returned (detectCaptcha ?w start)) = Some (Some (js ''frame_text''))"
    by (simp add: returned_def found_def)
  then show ?thesis
    by (simp add: two_frames_def blank_page_def facebook_not_checkpoint recaptcha_widget)
qed

text \<open>
  Claim C7. \<open>detectCaptcha\<close> returns a result on every page and in every state, and a
  check that faults falls through as a check that did not match: a fault of
  \<open>page.url()\<close>, of \<open>page.frames()\<close>, of reading a frame's text, of a
  selector query, or of reading the body text. Every page call of the function stands
  inside a handler of its own, so no fault of the page reaches the outer handler,
  which returns \<open>{ detected: false }\<close>.
\<close>

theorem detectCaptcha_never_throws:
  "(\<exists>r s'. detectCaptcha w s = (Ok r, s'))
   \<and> (url (view w (trace s)) = Throw e \<longrightarrow> urlCheck w s = (Ok None, s))
   \<and> (frames (view w (trace s)) = Throw e \<longrightarrow> frameCheck w s = (Ok None, s))
   \<and> (furl f = Ok fu \<and> \<not> frame_url_hit fu \<and> fbody f = Throw e
        \<longrightarrow> scanFrames w (f # fs) s = scanFrames w fs s)
   \<and> (query (view w (trace s)) sel = Throw e \<longrightarrow> selectorStep w sel s = (Ok None, s))
   \<and> (toLowerCase w [] = [] \<and> bodyText (view w (trace s)) = Throw e
        \<longrightarrow> bodyCheck w s = (Ok None, s))"
proof (intro conjI impI)
  show "\<exists>r s'. detectCaptcha w s = (Ok r, s')"
    by (rule detectCaptcha_total)
  show "urlCheck w s = (Ok None, s)" if "url (view w (trace s)) = Throw e"
    using that by (rule urlCheck_fault)
  show "frameCheck w s = (Ok None, s)" if "frames (view w (trace s)) = Throw e"
    using that by (rule frameCheck_fault)
  show "scanFrames w (f # fs) s = scanFrames w fs s"
    if "furl f = Ok fu \<and> \<not> frame_url_hit fu \<and> fbody f = Throw e"
    using that by (intro scanFrames_text_fault[of f fu e]) simp_all
  show "selectorStep w sel s = (Ok None, s)" if "query (view w (trace s)) sel = Throw e"
    using that by (rule selectorStep_fault)
  show "bodyCheck w s = (Ok None, s)"
    if "toLowerCase w [] = [] \<and> bodyText (view w (trace s)) = Throw e"
    using that by (intro bodyCheck_fault[of w s e]) simp_all
qed

theorem detectCaptcha_never_throws_witness:
  "url faulty_page = Throw (js ''detached'') \<and> frames faulty_page = Throw (js ''detached'')
   \<and> query faulty_page (js ''div'') = Throw (js ''detached'')
   \<and> bodyText faulty_page = Throw (js ''detached'')
   \<and> urlCheck (still_world faulty_page) start = (Ok None, start)
   \<and> frameCheck (still_world faulty_page) start = (Ok None, start)
   \<and> selectorStep (still_world faulty_page) (js ''div'') start = (Ok None, start)
   \<and> bodyCheck (still_world faulty_page) start = (Ok None, start)
   \<and> scanFrames (still_world faulty_page)
        [\<lparr>furl = Ok (js ''about:blank''), fbody = Throw (js ''detached'')\<rparr>] start
       = scanFrames (still_world faulty_page) [] start
   \<and> (\<exists>r s'. detectCaptcha (still_world faulty_page) start = (Ok r, s'))"
proof -
  let ?w = "still_world faulty_page"
  let ?f = "\<lparr>furl = Ok (js ''about:blank''), fbody = Throw (js ''detached'')\<rparr>"
  note T = detectCaptcha_never_throws[of ?w start "js ''detached''" ?f "js ''about:blank''"
      "[]" "js ''div''"]
  have p: "view ?w (trace start) = faulty_page"
    by (simp add: still_world_def)
  have f: "url faulty_page = Throw (js ''detached'')" "frames faulty_page = Throw (js ''detached'')"
    "query faulty_page (js ''div'') = Throw (js ''detached'')"
    "bodyText faulty_page = Throw (js ''detached'')"
    by (simp_all add: faulty_page_def blank_page_def)
  have l: "toLowerCase ?w [] = []"
    by (simp add: still_world_def ascii_lower_def)
  have g: "furl ?f = Ok (js ''about:blank'') \<and> \<not> frame_url_hit (js ''about:blank'')
      \<and> fbody ?f = Throw (js ''detached'')"
    by (simp add: blank_not_widget)
  from T p f l g show ?thesis
    by (simp del: scanFrames.simps)
qed

subsection \<open>Symbolic execution\<close>

lemma bnd_bnd: "bnd (bnd m f) g s = bnd m (\<lambda>x. bnd (f x) g) s"
  by (simp add: bnd_def split: prod.splits outcome.splits)

lemma bnd_act:
  "bnd (act w e) f s =
     (case fails w (trace s) e of
        None \<Rightarrow> f () (s\<lparr>trace := trace s @ [e]\<rparr>)
      | Some msg \<Rightarrow> (Throw msg, s\<lparr>trace := trace s @ [e]\<rparr>))"
  by (simp add: bnd_def act_def split: option.splits)

lemma bnd_sleep: "bnd (sleep d) f s = f () (s\<lparr>trace := trace s @ [Sleep d]\<rparr>)"
  by (simp add: bnd_def sleep_def)

lemma bnd_mathRandom:
  "bnd (mathRandom w) f s = f (random w (draws s)) (s\<lparr>draws := Suc (draws s)\<rparr>)"
  by (simp add: bnd_def mathRandom_def)

lemma bnd_dateNow: "bnd (dateNow w) f s = f (clock w (trace s)) s"
  by (simp add: bnd_def dateNow_def)

lemma bnd_if: "bnd (if c then a else b) f s = (if c then bnd a f s else bnd b f s)"
  by simp

lemma bnd_waitRandom:
  "bnd (waitRandom w base spread) f s =
     f () (s\<lparr>draws := Suc (draws s),
              trace := trace s @ [Sleep (base + random w (draws s) * spread)]\<rparr>)"
  by (simp add: waitRandom_def bnd_bnd bnd_mathRandom bnd_sleep)

lemma bnd_throttle:
  "bnd (throttle w) f s =
     (let waitFor = max 0 (int (minMessageIntervalMs s) - (int (clock w (trace s)) - int (lastActionAt s)));
          s1 = (if waitFor > 0 then s\<lparr>trace := trace s @ [Sleep (of_int waitFor)]\<rparr> else s)
      in f () (s1\<lparr>lastActionAt := clock w (trace s1)\<rparr>))"
  by (simp add: throttle_def bnd_def dateNow_def sleep_def ret_def Let_def)

lemmas run_simps = bnd_bnd bnd_act bnd_sleep bnd_mathRandom bnd_dateNow bnd_observe
  bnd_waitRandom bnd_throttle

text \<open>The throttle only sleeps: it changes nothing of the state but the trace, by
  pauses, and \<open>_lastActionAt\<close>.\<close>

lemma throttle_sleeps:
  "\<exists>pre s2. (\<forall>f. bnd (throttle w) f s = f () s2) \<and> trace s2 = trace s @ pre
     \<and> list_all is_sleep pre \<and> draws s2 = draws s"
proof -
  define wf where "wf = max 0 (int (minMessageIntervalMs s)
      - (int (clock w (trace s)) - int (lastActionAt s)))"
  define s1 where "s1 = (if wf > 0 then s\<lparr>trace := trace s @ [Sleep (of_int wf)]\<rparr> else s)"
  have "\<forall>f. bnd (throttle w) f s = f () (s1\<lparr>lastActionAt := clock w (trace s1)\<rparr>)"
    unfolding bnd_throttle wf_def s1_def Let_def by (rule allI) (rule refl)
  moreover have "trace (s1\<lparr>lastActionAt := clock w (trace s1)\<rparr>)
      = trace s @ (if wf > 0 then [Sleep (of_int wf)] else [])"
    by (simp add: s1_def)
  moreover have "list_all is_sleep (if wf > 0 then [Sleep (of_int wf)] else [])"
    by (simp add: is_sleep_def)
  moreover have "draws (s1\<lparr>lastActionAt := clock w (trace s1)\<rparr>) = draws s"
    by (simp add: s1_def)
  ultimately show ?thesis by blast
qed

subsection \<open>sendFriendRequest\<close>

lemma sendFriendRequest_try_already:
  assumes nofail: "\<forall>tr e. fails w tr e = None"
    and enc: "encodeURIComponent w profileName = Ok q"
    and cards: "\<forall>tr. queryAll (view w tr) (cardXpath w profileName) = Ok (cs tr)"
    and btn: "\<forall>tr. query (view w tr) addFriendSelector = Ok (Some b)"
    and ind: "\<forall>tr. buttonTexts (view w tr) = Ok (ts tr) \<and> list_ex (friendText w) (ts tr)"
  shows "\<exists>s'. sendFriendRequest_try w profileName s =
           (Ok (emptyResult\<lparr>status := Some (js ''success''),
                  message := Some (js ''Already friends with this user''),
                  error := None, profile := Some profileName\<rparr>), s')
         \<and> Click b \<in> set (trace s')"
  using assms
  by (simp add: sendFriendRequest_try_def run_simps ret_def Let_def)

lemma captureScreenshot_run:
  "\<exists>sh. captureScreenshot w label s = (Ok sh, s\<lparr>trace := trace s @ shotEvents w label (trace s)\<rparr>)"
  by (simp add: captureScreenshot_def setViewport_def shotEvents_def bnd_def dateNow_def Let_def
      try_catch_def swallow_def act_def sleep_def ret_def throw_def split: option.splits)

text \<open>On a page object without \<open>setViewport\<close> the screenshot is not taken: the
  helper answers \<open>success: false\<close> with the TypeError's message and has done
  nothing.\<close>

lemma captureScreenshot_without_setViewport:
  assumes "\<not> hasSetViewport w"
  shows "captureScreenshot w label s =
     (Ok \<lparr>shot_success = False, shot_urlPath = None,
           shot_error = Some (js ''page.setViewport is not a function'')\<rparr>, s)"
  using assms
  by (simp add: captureScreenshot_def setViewport_def bnd_def dateNow_def Let_def
      try_catch_def ret_def throw_def)

lemma captureScreenshot_playwright:
  "captureScreenshot (playwright_world p) label s =
     (Ok \<lparr>shot_success = False, shot_urlPath = None,
           shot_error = Some (js ''page.setViewport is not a function'')\<rparr>, s)"
  by (rule captureScreenshot_without_setViewport) (simp add: playwright_world_def)

lemma sendFriendRequest_try_stranger:
  assumes nofail: "\<forall>tr e. fails w tr e = None"
    and enc: "encodeURIComponent w profileName = Ok q"
    and cards: "\<forall>tr. queryAll (view w tr) (cardXpath w profileName) = Ok (cs tr)"
    and btn: "\<forall>tr. query (view w tr) addFriendSelector = Ok (Some b)"
    and ind: "\<forall>tr. buttonTexts (view w tr) = Ok (ts tr) \<and> \<not> list_ex (friendText w) (ts tr)"
  shows "\<exists>s'. sendFriendRequest_try w profileName s =
           (Throw (js ''addFriendButtons is not defined''), s')
         \<and> Click b \<in> set (trace s')
         \<and> (\<forall>n c l. SaveSession n c l \<notin> set (trace s') - set (trace s))"
  using assms
  by (auto simp add: sendFriendRequest_try_def run_simps ret_def Let_def)

lemma sendFriendRequest_caught:
  assumes "sendFriendRequest_try w profileName s = (Throw err, s1)"
  shows "\<exists>sh. sendFriendRequest w profileName s =
      (Ok (emptyResult\<lparr>status := Some (js ''failed''),
             message := Some (js ''Exception while sending friend request''),
             error := Some err, screenshotPath := shot_ref sh, profile := Some profileName\<rparr>),
       s1\<lparr>trace := trace s1 @ shotEvents w (js ''sendFriendRequest-exception'') (trace s1)\<rparr>)"
proof -
  obtain sh where "captureScreenshot w (js ''sendFriendRequest-exception'') s1
      = (Ok sh, s1\<lparr>trace := trace s1 @ shotEvents w (js ''sendFriendRequest-exception'') (trace s1)\<rparr>)"
    using captureScreenshot_run by blast
  then have "sendFriendRequest w profileName s =
      (Ok (emptyResult\<lparr>status := Some (js ''failed''),
             message := Some (js ''Exception while sending friend request''),
             error := Some err, screenshotPath := shot_ref sh, profile := Some profileName\<rparr>),
       s1\<lparr>trace := trace s1 @ shotEvents w (js ''sendFriendRequest-exception'') (trace s1)\<rparr>)"
    using assms by (simp add: sendFriendRequest_def try_catch_def bnd_def ret_def)
  then show ?thesis by blast
qed

lemma ok_try_catch: "m s = (Ok x, s1) \<Longrightarrow> try_catch m h s = (Ok x, s1)"
  by (simp add: try_catch_def)

lemma still_world_simps:
  "toLowerCase (still_world p) = ascii_lower"
  "isoDay (still_world p) t = js ''2025-01-01''"
  "encodeURIComponent (still_world p) n = Ok n"
  "random (still_world p) k = 0"
  "clock (still_world p) tr = 0"
  "view (still_world p) tr = p"
  "fails (still_world p) tr e = None"
  "waitFor (still_world p) tr sel vis t = Ok None"
  "hasSetViewport (still_world p)"
  by (simp_all add: still_world_def)

lemma friends_is_friendText: "friendText (still_world p) (Some (js ''Friends''))"
  by (simp add: friendText_def still_world_def ascii_lower_def or_empty_def js_def)

lemma add_friend_not_friendText: "\<not> friendText (still_world p) (Some (js ''Add friend''))"
  by (simp add: friendText_def still_world_def ascii_lower_def or_empty_def js_def)

lemma not_saved_iff: "\<not> saved tr \<longleftrightarrow> (\<forall>n c l. SaveSession n c l \<notin> set tr)"
  by (auto simp: saved_def list_ex_iff split: event.splits)

text \<open>
  Claim C2 (the code breaks it). The add-friend control is present and the text of the
  controls holds an already-connected indicator, before and after every interaction;
  no interaction fails and the queries of the search page do not fault. Then
  \<open>sendFriendRequest\<close> returns the success object of the already-friends branch,
  but it has clicked the control: after its pauses and the navigation to the search
  page, the click on the control is the next interaction, and the scan for the
  indicator only follows it.
\<close>

theorem sendFriendRequest_already_connected_clicks:
  assumes "\<forall>tr e. fails w tr e = None"
    and "encodeURIComponent w profileName = Ok q"
    and "\<forall>tr. queryAll (view w tr) (cardXpath w profileName) = Ok (cs tr)"
    and "\<forall>tr. query (view w tr) addFriendSelector = Ok (Some b)"
    and "\<forall>tr. buttonTexts (view w tr) = Ok (ts tr) \<and> list_ex (friendText w) (ts tr)"
  shows "\<exists>s' pre. sendFriendRequest w profileName s =
           (Ok (emptyResult\<lparr>status := Some (js ''success''),
                  message := Some (js ''Already friends with this user''),
                  error := None, profile := Some profileName\<rparr>), s')
         \<and> trace s' = trace s @ pre
              @ [Goto (js ''https://www.facebook.com/search/top?q='' @ q),
                 Sleep (1500 + random w (Suc (draws s)) * 1500),
                 Click b,
                 Sleep (1500 + random w (Suc (Suc (draws s))) * 1000)]
         \<and> list_all is_sleep pre"
proof -
  define s1 where "s1 = s\<lparr>draws := Suc (draws s),
      trace := trace s @ [Sleep (1000 + random w (draws s) * 2000)]\<rparr>"
  obtain pre s2 where th: "\<forall>f :: unit \<Rightarrow> actionResult prog. bnd (throttle w) f s1 = f () s2"
    and tr2: "trace s2 = trace s1 @ pre" and pre: "list_all is_sleep pre"
    and d2: "draws s2 = draws s1"
    using throttle_sleeps by blast
  have "\<exists>s'. sendFriendRequest_try w profileName s =
           (Ok (emptyResult\<lparr>status := Some (js ''success''),
                  message := Some (js ''Already friends with this user''),
                  error := None, profile := Some profileName\<rparr>), s')
         \<and> trace s' = trace s2
              @ [Goto (js ''https://www.facebook.com/search/top?q='' @ q),
                 Sleep (1500 + random w (draws s2) * 1500),
                 Click b,
                 Sleep (1500 + random w (Suc (draws s2)) * 1000)]"
    using assms th
    by (simp add: sendFriendRequest_try_def bnd_waitRandom s1_def[symmetric]
        bnd_bnd bnd_act bnd_observe ret_def)
  then obtain s' where r: "sendFriendRequest_try w profileName s =
           (Ok (emptyResult\<lparr>status := Some (js ''success''),
                  message := Some (js ''Already friends with this user''),
                  error := None, profile := Some profileName\<rparr>), s')"
    and tr: "trace s' = trace s2
              @ [Goto (js ''https://www.facebook.com/search/top?q='' @ q),
                 Sleep (1500 + random w (draws s2) * 1500),
                 Click b,
                 Sleep (1500 + random w (Suc (draws s2)) * 1000)]"
    by blast
  from r have "sendFriendRequest w profileName s =
           (Ok (emptyResult\<lparr>status := Some (js ''success''),
                  message := Some (js ''Already friends with this user''),
                  error := None, profile := Some profileName\<rparr>), s')"
    by (simp add: sendFriendRequest_def ok_try_catch)
  moreover have "trace s' = trace s @ (Sleep (1000 + random w (draws s) * 2000) # pre)
              @ [Goto (js ''https://www.facebook.com/search/top?q='' @ q),
                 Sleep (1500 + random w (Suc (draws s)) * 1500),
                 Click b,
                 Sleep (1500 + random w (Suc (Suc (draws s))) * 1000)]"
    by (simp add: tr tr2 d2 s1_def)
  moreover have "list_all is_sleep (Sleep (1000 + random w (draws s) * 2000) # pre)"
    using pre by (simp add: is_sleep_def)
  ultimately show ?thesis by blast
qed

theorem sendFriendRequest_already_connected_clicks_witness:
  "list_ex (friendText (still_world friend_page)) [Some (js ''Friends'')]
   \<and> (\<exists>s' pre. sendFriendRequest (still_world friend_page) (js ''Ann'') start =
           (Ok (emptyResult\<lparr>status := Some (js ''success''),
                  message := Some (js ''Already friends with this user''),
                  error := None, profile := Some (js ''Ann'')\<rparr>), s')
         \<and> trace s' = trace start @ pre
              @ [Goto (js ''https://www.facebook.com/search/top?q='' @ js ''Ann''),
                 Sleep 1500, Click 7, Sleep 1500]
         \<and> list_all is_sleep pre)"
  using sendFriendRequest_already_connected_clicks[where w = "still_world friend_page"
        and profileName = "js ''Ann''" and q = "js ''Ann''" and cs = "\<lambda>tr. []"
        and b = 7 and ts = "\<lambda>tr. [Some (js ''Friends'')]" and s = start]
  by (simp add: still_world_simps friend_page_def blank_page_def friends_is_friendText)

text \<open>
  Claim C1 (the code breaks it). On a page with the add-friend control and no
  already-connected indicator the control is clicked, and then the reference to the
  undeclared \<open>addFriendButtons\<close> throws: the operation returns the failure object of
  its handler, with that message as \<open>error\<close>, and the session is not written.
\<close>

theorem sendFriendRequest_fresh_request_fails:
  "map_option status (returned (sendFriendRequest (still_world stranger_page) (js ''Ann'') start))
       = Some (Some (js ''failed''))
   \<and> map_option error (returned (sendFriendRequest (still_world stranger_page) (js ''Ann'') start))
       = Some (Some (js ''addFriendButtons is not defined''))
   \<and> Click 7 \<in> set (trace (snd (sendFriendRequest (still_world stranger_page) (js ''Ann'') start)))
   \<and> \<not> saved (trace (snd (sendFriendRequest (still_world stranger_page) (js ''Ann'') start)))"
proof -
  let ?w = "still_world stranger_page"
  obtain s1 where t: "sendFriendRequest_try ?w (js ''Ann'') start =
      (Throw (js ''addFriendButtons is not defined''), s1)"
    and c: "Click 7 \<in> set (trace s1)"
    and n: "\<forall>n c l. SaveSession n c l \<notin> set (trace s1) - set (trace start)"
    using sendFriendRequest_try_stranger[where w = ?w and q = "js ''Ann''" and cs = "\<lambda>tr. []"
        and b = 7 and ts = "\<lambda>tr. [Some (js ''Add friend'')]" and profileName = "js ''Ann''"
        and s = start]
    by (auto simp: still_world_simps stranger_page_def blank_page_def add_friend_not_friendText)
  obtain sh where r: "sendFriendRequest ?w (js ''Ann'') start =
      (Ok (emptyResult\<lparr>status := Some (js ''failed''),
             message := Some (js ''Exception while sending friend request''),
             error := Some (js ''addFriendButtons is not defined''),
             screenshotPath := shot_ref sh, profile := Some (js ''Ann'')\<rparr>),
       s1\<lparr>trace := trace s1 @ shotEvents ?w (js ''sendFriendRequest-exception'') (trace s1)\<rparr>)"
    using sendFriendRequest_caught[OF t] by blast
  from n have "\<not> saved (trace s1 @ shotEvents ?w (js ''sendFriendRequest-exception'') (trace s1))"
    by (auto simp: not_saved_iff shotEvents_def start_def)
  with c show ?thesis
    by (simp add: r returned_def emptyResult_def)
qed

text \<open>
  Claim C3 (the code breaks it). The object \<open>sendFriendRequest\<close> returns carries
  \<open>status\<close>, \<open>message\<close> and \<open>error\<close> and no \<open>success\<close> field, also when the status
  is \<open>success\<close>; \<open>login\<close> and \<open>sendMessage\<close> return objects with \<open>success\<close>, and
  the HTTP handlers read \<open>result.success\<close>.
\<close>

theorem sendFriendRequest_result_has_no_success_field:
  "map_option success (returned (sendFriendRequest (still_world friend_page) (js ''Ann'') start))
       = Some None
   \<and> map_option status (returned (sendFriendRequest (still_world friend_page) (js ''Ann'') start))
       = Some (Some (js ''success''))"
proof -
  obtain s2 where "sendFriendRequest_try (still_world friend_page) (js ''Ann'') start =
      (Ok (emptyResult\<lparr>status := Some (js ''success''),
             message := Some (js ''Already friends with this user''),
             error := None, profile := Some (js ''Ann'')\<rparr>), s2)"
    using sendFriendRequest_try_already[where w = "still_world friend_page" and q = "js ''Ann''"
        and cs = "\<lambda>tr. []" and b = 7 and ts = "\<lambda>tr. [Some (js ''Friends'')]"
        and profileName = "js ''Ann''" and s = start]
    by (auto simp: still_world_simps friend_page_def blank_page_def friends_is_friendText)
  then have "sendFriendRequest (still_world friend_page) (js ''Ann'') start =
      (Ok (emptyResult\<lparr>status := Some (js ''success''),
             message := Some (js ''Already friends with this user''),
             error := None, profile := Some (js ''Ann'')\<rparr>), s2)"
    by (simp add: sendFriendRequest_def ok_try_catch)
  then show ?thesis
    by (simp add: returned_def emptyResult_def)
qed

subsection \<open>login\<close>

lemma typeChars_ok:
  assumes "\<forall>tr e. fails w tr e = None"
  shows "\<exists>s'. typeChars w chs mn mx s = (Ok (), s')"
  using assms
  by (induction chs arbitrary: s) (simp_all add: ret_def run_simps)

lemma humanType_ok:
  assumes "\<forall>tr e. fails w tr e = None" and "query (view w (trace s)) sel = Ok (Some h)"
  shows "\<exists>s'. humanType w (Selector sel) txt mn mx s = (Ok (), s')"
  using assms typeChars_ok[OF assms(1)]
  by (simp add: humanType_def run_simps)

lemma humanType_missing:
  "query (view w (trace s)) sel = Ok None \<Longrightarrow>
     humanType w (Selector sel) txt mn mx s = (Throw (js ''humanType: handle not found''), s)"
  by (simp add: humanType_def run_simps throw_def)

lemma smallHumanMove_ok: "\<exists>s'. smallHumanMove w s = (Ok (), s')"
  by (auto simp: smallHumanMove_def try_catch_def bnd_def observe_def mathRandom_def act_def ret_def
      split: prod.splits outcome.splits option.splits)

lemma bnd_waitForSelector:
  "bnd (waitForSelector w sel vis t) f s =
     (case waitFor w (trace s) sel vis t of
        Ok x \<Rightarrow> f x (s\<lparr>trace := trace s @ [WaitForSelector sel vis t]\<rparr>)
      | Throw e \<Rightarrow> (Throw e, s\<lparr>trace := trace s @ [WaitForSelector sel vis t]\<rparr>))"
  by (simp add: bnd_def waitForSelector_def split: outcome.splits)

lemma loginForm_typed:
  assumes nofail: "\<forall>tr e. fails w tr e = None"
    and marker: "\<forall>tr. query (view w tr) searchSelector = Ok None"
    and waits: "\<forall>tr sel vis t. waitFor w tr sel vis t = Ok (wh tr sel)"
    and fields: "\<forall>tr. query (view w tr) (js ''#email'') = Ok (Some h1)
                   \<and> query (view w tr) (js ''#pass'') = Ok (Some h2)"
  shows "\<exists>s'. loginForm w email password s = (Ok None, s')"
proof -
  let ?s2 = "s\<lparr>trace := trace s @ [Goto (js ''https://www.facebook.com/login''),
      WaitForSelector (js ''#email'') False 10000, WaitForSelector (js ''#pass'') False 10000]\<rparr>"
  obtain s3 where a: "humanType w (Selector (js ''#email'')) email 70 140 ?s2 = (Ok (), s3)"
    using humanType_ok[OF nofail] fields by blast
  obtain s4 where b: "humanType w (Selector (js ''#pass'')) password 70 140 s3 = (Ok (), s4)"
    using humanType_ok[OF nofail] fields by blast
  obtain s5 where c: "smallHumanMove w s4 = (Ok (), s5)"
    using smallHumanMove_ok by blast
  have "loginForm w email password s
      = (Ok None, s5\<lparr>trace := trace s5 @ [ClickSelector (js ''[name=login]'')]\<rparr>)"
    using nofail marker waits
    by (simp add: loginForm_def humanTypeDefault_def run_simps bnd_waitForSelector
        bnd_result(1)[where m = "humanType w (Selector (js ''#email'')) email 70 140", OF a]
        bnd_result(1)[where m = "humanType w (Selector (js ''#pass'')) password 70 140", OF b]
        bnd_result(1)[where m = "smallHumanMove w", OF c] ret_def)
  then show ?thesis by blast
qed

lemma loginForm_no_email:
  assumes nofail: "\<forall>tr e. fails w tr e = None"
    and marker: "\<forall>tr. query (view w tr) searchSelector = Ok None"
    and waits: "\<forall>tr sel vis t. waitFor w tr sel vis t = Ok (wh tr sel)"
    and fields: "\<forall>tr. query (view w tr) (js ''#email'') = Ok None"
  shows "loginForm w email password s =
      (Throw (js ''humanType: handle not found''),
       s\<lparr>trace := trace s @ [Goto (js ''https://www.facebook.com/login''),
          WaitForSelector (js ''#email'') False 10000, WaitForSelector (js ''#pass'') False 10000]\<rparr>)"
  using nofail marker waits fields
  by (simp add: loginForm_def humanTypeDefault_def run_simps bnd_waitForSelector
      bnd_result(2)[where m = "humanType w (Selector (js ''#email'')) email 70 140",
        OF humanType_missing] ret_def)

lemma waitForLoginOutcome_first:
  "pollOnce w s = (Ok (Some out), s') \<Longrightarrow> waitForLoginOutcome w 20000 s = Some (Ok out, s')"
  by (simp add: waitForLoginOutcome_def pollLoop.simps[of w "clock w (trace s)" 20000 s])

lemma successCheck_absent:
  "query (view w (trace s)) searchSelector = Ok None \<Longrightarrow> successCheck w s = (Ok None, s)"
  by (simp add: successCheck_def try_catch_def bnd_def observe_def ret_def)

lemma captchaCheck_hit:
  "detectCaptcha w s = (Ok c, s') \<Longrightarrow> detected c \<Longrightarrow>
     captchaCheck w s = (Ok (Some (captchaOutcome c)), s')"
  by (simp add: captchaCheck_def try_catch_def bnd_def ret_def)

lemma captchaCheck_quiet:
  "detectCaptcha w s = (Ok not_detected, s) \<Longrightarrow> captchaCheck w s = (Ok None, s)"
  by (simp add: captchaCheck_def try_catch_def bnd_def ret_def not_detected_def)

lemma credentialsCheck_hit:
  "bodyText (view w (trace s)) = Ok b \<Longrightarrow> invalidText (toLowerCase w (or_empty b)) \<Longrightarrow>
     credentialsCheck w s
       = (Ok (Some (invalidOutcome (slice0 800 (toLowerCase w (or_empty b))))), s)"
  by (simp add: credentialsCheck_def try_catch_def bnd_def observe_def ret_def Let_def)

lemma detectCaptcha_url:
  assumes "url (view w (trace s)) = Ok u" and "is_checkpoint_url u"
  shows "\<exists>sh. detectCaptcha w s
      = (Ok (found (js ''url'') u None sh),
         s\<lparr>trace := trace s @ shotEvents w (js ''captcha-by-url'') (trace s)\<rparr>)"
proof -
  obtain sh where "captureScreenshot w (js ''captcha-by-url'') s
      = (Ok sh, s\<lparr>trace := trace s @ shotEvents w (js ''captcha-by-url'') (trace s)\<rparr>)"
    using captureScreenshot_run by blast
  then have "urlCheck w s
      = (Ok (Some (found (js ''url'') u None sh)),
         s\<lparr>trace := trace s @ shotEvents w (js ''captcha-by-url'') (trace s)\<rparr>)"
    using assms by (simp add: urlCheck_def try_catch_def bnd_def observe_def ret_def)
  then have "detectCaptcha w s
      = (Ok (found (js ''url'') u None sh),
         s\<lparr>trace := trace s @ shotEvents w (js ''captcha-by-url'') (trace s)\<rparr>)"
    by (simp add: detectCaptcha_def orElse_result bnd_result try_catch_result ret_def)
  then show ?thesis by blast
qed

lemma bnd_swallow_act:
  "bnd (swallow (act w e)) f s = f () (s\<lparr>trace := trace s @ [e]\<rparr>)"
  by (simp add: bnd_def swallow_def try_catch_def act_def ret_def split: option.splits)

lemma captchaBackoff_eq:
  "captchaBackoff w a s
     = (Ok (), s\<lparr>draws := Suc (draws s),
          trace := trace s
            @ [Sleep (real (min 15000 (1000 * 2 ^ a)) + of_int \<lfloor>random w (draws s) * 1000\<rfloor>),
               ClearStorage]
            @ (case cookies (view w (trace s
                  @ [Sleep (real (min 15000 (1000 * 2 ^ a))
                       + of_int \<lfloor>random w (draws s) * 1000\<rfloor>), ClearStorage])) of
                 Ok cs \<Rightarrow> [DeleteCookie cs] | Throw e \<Rightarrow> [])\<rparr>)"
  by (simp add: captchaBackoff_def bnd_mathRandom bnd_sleep bnd_swallow_act)
     (simp add: swallow_def try_catch_def bnd_def observe_def act_def ret_def
       split: outcome.splits option.splits)

lemma captchaBackoff_run:
  assumes "0 \<le> random w (draws s)" and "random w (draws s) < 1"
  shows "\<exists>j rest. captchaBackoff w a s
           = (Ok (), s\<lparr>draws := Suc (draws s),
                trace := trace s @ [Sleep (real (min 15000 (1000 * 2 ^ a) + j))] @ rest\<rparr>)
         \<and> j < 1000
         \<and> (rest = [ClearStorage] \<or> (\<exists>cs. rest = [ClearStorage, DeleteCookie cs]))"
proof -
  let ?r = "random w (draws s)"
  let ?j = "nat \<lfloor>?r * 1000\<rfloor>"
  have j0: "0 \<le> \<lfloor>?r * 1000\<rfloor>" using assms(1) by simp
  have "?r * 1000 < 1000" using assms(2) by simp
  then have "\<lfloor>?r * 1000\<rfloor> < 1000" by (simp add: floor_less_iff)
  with j0 have j: "?j < 1000" by (simp add: nat_less_iff)
  have d: "real (min 15000 (1000 * 2 ^ a)) + of_int \<lfloor>?r * 1000\<rfloor>
      = real (min 15000 (1000 * 2 ^ a) + ?j)"
    using j0 by simp
  let ?rest = "[ClearStorage] @ (case cookies (view w (trace s
      @ [Sleep (real (min 15000 (1000 * 2 ^ a) + ?j)), ClearStorage])) of
        Ok cs \<Rightarrow> [DeleteCookie cs] | Throw e \<Rightarrow> [])"
  have "captchaBackoff w a s
      = (Ok (), s\<lparr>draws := Suc (draws s),
           trace := trace s @ [Sleep (real (min 15000 (1000 * 2 ^ a) + ?j))] @ ?rest\<rparr>)"
    unfolding captchaBackoff_eq d by simp
  moreover have "?rest = [ClearStorage] \<or> (\<exists>cs. ?rest = [ClearStorage, DeleteCookie cs])"
    by (simp split: outcome.splits)
  ultimately show ?thesis using j by blast
qed

lemma outcome_names:
  "js ''captcha'' \<noteq> js ''success''" "js ''invalid_credentials'' \<noteq> js ''success''"
  "js ''invalid_credentials'' \<noteq> js ''captcha''" "js ''timeout'' \<noteq> js ''success''"
  "js ''timeout'' \<noteq> js ''captcha''" "js ''timeout'' \<noteq> js ''invalid_credentials''"
  by (simp_all add: js_def)

lemma decide_captcha_retry:
  assumes "attempt < maxRetries"
    and "0 \<le> random w (draws s1)" and "random w (draws s1) < 1"
  shows "\<exists>j rest s2. decide w maxRetries attempt (captchaOutcome c) s1 = (Ok Continue, s2)
           \<and> trace s2 = trace s1 @ shotEvents w (js ''login-captcha-'' @ decimal attempt) (trace s1)
                          @ [Sleep (real (min 15000 (1000 * 2 ^ Suc attempt) + j))] @ rest
           \<and> j < 1000
           \<and> (rest = [ClearStorage] \<or> (\<exists>cs. rest = [ClearStorage, DeleteCookie cs]))"
proof -
  let ?l = "js ''login-captcha-'' @ decimal attempt"
  let ?s' = "s1\<lparr>trace := trace s1 @ shotEvents w ?l (trace s1)\<rparr>"
  obtain sh where sh: "captureScreenshot w ?l s1 = (Ok sh, ?s')"
    using captureScreenshot_run by blast
  have "0 \<le> random w (draws ?s')" "random w (draws ?s') < 1"
    using assms by simp_all
  then obtain j rest where b: "captchaBackoff w (Suc attempt) ?s'
           = (Ok (), ?s'\<lparr>draws := Suc (draws ?s'),
                trace := trace ?s' @ [Sleep (real (min 15000 (1000 * 2 ^ Suc attempt) + j))] @ rest\<rparr>)"
    and j: "j < 1000"
    and rest: "rest = [ClearStorage] \<or> (\<exists>cs. rest = [ClearStorage, DeleteCookie cs])"
    using captchaBackoff_run[of w ?s' "Suc attempt"] by blast
  have "decide w maxRetries attempt (captchaOutcome c) s1
      = (Ok Continue, ?s'\<lparr>draws := Suc (draws ?s'),
                trace := trace ?s' @ [Sleep (real (min 15000 (1000 * 2 ^ Suc attempt) + j))] @ rest\<rparr>)"
    using assms(1)
    by (simp add: decide_def captchaOutcome_def plainOutcome_def outcome_names
        bnd_result(1)[where m = "captureScreenshot w ?l", OF sh]
        bnd_result(1)[where m = "captchaBackoff w (Suc attempt)", OF b] ret_def)
  with j rest show ?thesis by force
qed

lemma decide_captcha_final:
  "\<exists>sh. decide w maxRetries maxRetries (captchaOutcome c) s1
     = (Ok (Return (emptyResult\<lparr>success := Some False, error := Some (js ''captcha_detected''),
              screenshotPath := sh, detail := Some (CaptchaDetail c)\<rparr>)),
        s1\<lparr>trace := trace s1 @ shotEvents w (js ''login-captcha-'' @ decimal maxRetries) (trace s1)\<rparr>)"
proof -
  let ?l = "js ''login-captcha-'' @ decimal maxRetries"
  let ?s' = "s1\<lparr>trace := trace s1 @ shotEvents w ?l (trace s1)\<rparr>"
  obtain sh where sh: "captureScreenshot w ?l s1 = (Ok sh, ?s')"
    using captureScreenshot_run by blast
  have "decide w maxRetries maxRetries (captchaOutcome c) s1
     = (Ok (Return (emptyResult\<lparr>success := Some False, error := Some (js ''captcha_detected''),
              screenshotPath := shot_ref sh, detail := Some (CaptchaDetail c)\<rparr>)), ?s')"
    by (simp add: decide_def captchaOutcome_def plainOutcome_def outcome_names
        bnd_result(1)[where m = "captureScreenshot w ?l", OF sh] ret_def)
  then show ?thesis by blast
qed

lemma decide_invalid:
  "snip \<noteq> [] \<Longrightarrow>
   decide w maxRetries attempt (invalidOutcome snip) s1
     = (Ok (Return (emptyResult\<lparr>success := Some False, error := Some (js ''invalid_credentials''),
              detail := Some (Snippet snip)\<rparr>)), s1)"
  by (simp add: decide_def invalidOutcome_def plainOutcome_def outcome_names ret_def)

text \<open>
  Claim C6. A captcha outcome on a non-final attempt takes a screenshot and then
  sleeps exactly once, for \<open>min(15000, 1000 * 2^attempt)\<close> ms plus a jitter below
  1000 ms, where \<open>attempt\<close> is the counter the code has already incremented, that is
  the number of the attempt about to start; it then clears storage and cookies and
  runs the next full attempt. On the final attempt the result is the failure
  \<open>captcha_detected\<close> carrying the captcha detail of that attempt. The draw of
  \<open>Math.random()\<close> lies in [0, 1).
\<close>

theorem login_captcha_backoff:
  assumes "doLoginOnce w email password s = Some (Ok (captchaOutcome c), s1)"
    and "0 \<le> random w (draws s1)" and "random w (draws s1) < 1"
    and "attempt \<le> maxRetries"
  shows "(attempt < maxRetries \<longrightarrow>
           (\<exists>j rest s2.
              loginLoop w email password maxRetries attempt s
                = loginLoop w email password maxRetries (Suc attempt) s2
              \<and> trace s2 = trace s1
                   @ shotEvents w (js ''login-captcha-'' @ decimal attempt) (trace s1)
                   @ [Sleep (real (min 15000 (1000 * 2 ^ Suc attempt) + j))] @ rest
              \<and> j < 1000
              \<and> (rest = [ClearStorage] \<or> (\<exists>cs. rest = [ClearStorage, DeleteCookie cs]))))
       \<and> (attempt = maxRetries \<longrightarrow>
           (\<exists>sh s2.
              loginLoop w email password maxRetries attempt s
                = Some (Ok (emptyResult\<lparr>success := Some False,
                             error := Some (js ''captcha_detected''), screenshotPath := sh,
                             detail := Some (CaptchaDetail c)\<rparr>), s2)))"
proof (intro conjI impI)
  assume lt: "attempt < maxRetries"
  obtain j rest s2 where d: "decide w maxRetries attempt (captchaOutcome c) s1 = (Ok Continue, s2)"
    and rest: "trace s2 = trace s1
                   @ shotEvents w (js ''login-captcha-'' @ decimal attempt) (trace s1)
                   @ [Sleep (real (min 15000 (1000 * 2 ^ Suc attempt) + j))] @ rest"
      "j < 1000" "rest = [ClearStorage] \<or> (\<exists>cs. rest = [ClearStorage, DeleteCookie cs])"
    using decide_captcha_retry[OF lt assms(2,3)] by blast
  have "loginLoop w email password maxRetries attempt s
      = loginLoop w email password maxRetries (Suc attempt) s2"
    using assms(1,4) d by (simp add: loginLoop.simps[of w email password maxRetries attempt s])
  with rest show "\<exists>j rest s2.
      loginLoop w email password maxRetries attempt s
        = loginLoop w email password maxRetries (Suc attempt) s2
      \<and> trace s2 = trace s1
           @ shotEvents w (js ''login-captcha-'' @ decimal attempt) (trace s1)
           @ [Sleep (real (min 15000 (1000 * 2 ^ Suc attempt) + j))] @ rest
      \<and> j < 1000
      \<and> (rest = [ClearStorage] \<or> (\<exists>cs. rest = [ClearStorage, DeleteCookie cs]))"
    by blast
next
  assume eq: "attempt = maxRetries"
  obtain sh where "decide w maxRetries maxRetries (captchaOutcome c) s1
     = (Ok (Return (emptyResult\<lparr>success := Some False, error := Some (js ''captcha_detected''),
              screenshotPath := sh, detail := Some (CaptchaDetail c)\<rparr>)),
        s1\<lparr>trace := trace s1 @ shotEvents w (js ''login-captcha-'' @ decimal maxRetries) (trace s1)\<rparr>)"
    using decide_captcha_final by blast
  then have "loginLoop w email password maxRetries attempt s
      = Some (Ok (emptyResult\<lparr>success := Some False,
                   error := Some (js ''captcha_detected''), screenshotPath := sh,
                   detail := Some (CaptchaDetail c)\<rparr>),
              s1\<lparr>trace := trace s1 @ shotEvents w (js ''login-captcha-'' @ decimal maxRetries) (trace s1)\<rparr>)"
    using assms(1) eq by (simp add: loginLoop.simps[of w email password maxRetries maxRetries s])
  then show "\<exists>sh s2.
      loginLoop w email password maxRetries attempt s
        = Some (Ok (emptyResult\<lparr>success := Some False,
                     error := Some (js ''captcha_detected''), screenshotPath := sh,
                     detail := Some (CaptchaDetail c)\<rparr>), s2)"
    by blast
qed

lemma scanPatterns_quiet:
  "list_all (\<lambda>p. \<not> (normalize w p \<noteq> [] \<and> js_includes nb (normalize w p))) pats \<Longrightarrow>
     scanPatterns w nb pats s = (Ok None, s)"
  by (induction pats) (auto simp add: ret_def Let_def)

lemma bodyCheck_no_phrase:
  assumes "bodyText (view w (trace s)) = Ok b"
    and "list_all (\<lambda>p. \<not> (normalize w p \<noteq> []
            \<and> js_includes (normalize w (or_empty b)) (normalize w p)))
          (TEXT_PATTERNS_EN @ TEXT_PATTERNS_FA)"
  shows "bodyCheck w s = (Ok None, s)"
  using assms scanPatterns_quiet[OF assms(2)]
  by (simp add: bodyCheck_def bnd_def try_catch_def observe_def ret_def Let_def)

lemma incorrect_normal:
  "normalize (still_world q) (or_empty (Some (js ''Incorrect''))) = js ''incorrect''"
  by (simp add: normalize_def still_world_simps ascii_lower_def trim_def is_space_def js_def
      or_empty_def)

lemma incorrect_no_phrase:
  "list_all (\<lambda>p. \<not> (normalize (still_world q) p \<noteq> []
       \<and> js_includes (js ''incorrect'') (normalize (still_world q) p)))
     (TEXT_PATTERNS_EN @ TEXT_PATTERNS_FA)"
  by (simp add: TEXT_PATTERNS_EN_def TEXT_PATTERNS_FA_def normalize_def still_world_simps
      ascii_lower_def trim_def is_space_def js_def)

lemma successCheck_Some:
  "successCheck w s = (Ok (Some out), s') \<Longrightarrow> out = plainOutcome (js ''success'')"
  by (auto simp: successCheck_def try_catch_def bnd_def observe_def ret_def
      split: prod.splits outcome.splits option.splits if_splits)

lemma captchaCheck_Some:
  "captchaCheck w s = (Ok (Some out), s') \<Longrightarrow> \<exists>c. out = captchaOutcome c"
  by (auto simp: captchaCheck_def try_catch_def bnd_def ret_def
      split: prod.splits outcome.splits if_splits)

lemma credentialsCheck_Some:
  "credentialsCheck w s = (Ok (Some out), s') \<Longrightarrow>
     \<exists>nb. out = invalidOutcome (slice0 800 nb) \<and> invalidText nb"
  by (auto simp: credentialsCheck_def try_catch_def bnd_def observe_def ret_def Let_def
      split: prod.splits outcome.splits if_splits)

lemma invalidText_nonempty: "invalidText nb \<Longrightarrow> nb \<noteq> []"
  by (auto simp: invalidText_def js_def)

lemma invalidOutcome_other:
  "invalidOutcome snip \<noteq> plainOutcome (js ''success'')"
  "invalidOutcome snip \<noteq> plainOutcome (js ''timeout'')"
  "invalidOutcome snip \<noteq> captchaOutcome c"
  "invalidOutcome snip = invalidOutcome snip' \<longleftrightarrow> snip = snip'"
  by (auto simp: invalidOutcome_def plainOutcome_def captchaOutcome_def js_def)

lemma pollOnce_invalid_nonempty:
  assumes "pollOnce w s = (Ok (Some (invalidOutcome snip)), s')"
  shows "snip \<noteq> []"
proof -
  from assms consider
    "\<exists>s1. successCheck w s = (Ok (Some (invalidOutcome snip)), s1)"
    | "\<exists>s0 s1. captchaCheck w s0 = (Ok (Some (invalidOutcome snip)), s1)"
    | "\<exists>s0 s1. credentialsCheck w s0 = (Ok (Some (invalidOutcome snip)), s1)"
    unfolding pollOnce_def by (auto dest!: orElse_Some; blast)
  then show ?thesis
  proof cases
    case 1
    then show ?thesis by (auto dest: successCheck_Some simp: invalidOutcome_other)
  next
    case 2
    then show ?thesis by (auto dest!: captchaCheck_Some simp: invalidOutcome_other)
  next
    case 3
    then obtain nb where "snip = slice0 800 nb" "invalidText nb"
      by (auto dest!: credentialsCheck_Some simp: invalidOutcome_other)
    then show ?thesis
      using invalidText_nonempty[of nb] by (simp add: slice0_def)
  qed
qed

lemma pollLoop_invalid_nonempty:
  assumes "pollLoop w st t s = Some y"
  shows "\<forall>snip s'. y = (Ok (invalidOutcome snip), s') \<longrightarrow> snip \<noteq> []"
proof (rule pollLoop.raw_induct[where
      P = "\<lambda>w st t s y. \<forall>snip s'. y = (Ok (invalidOutcome snip), s') \<longrightarrow> snip \<noteq> []",
      OF _ assms])
  fix f :: "world \<Rightarrow> nat \<Rightarrow> nat \<Rightarrow> ctl \<Rightarrow> (loginOutcome outcome \<times> ctl) option"
    and w st t s wa
  assume IH: "\<And>w st t s y. f w st t s = Some y \<Longrightarrow>
      \<forall>snip s'. y = (Ok (invalidOutcome snip), s') \<longrightarrow> snip \<noteq> []"
    and eq: "(if int (clock w (trace s)) - int st < int t
        then case pollOnce w s of
             (Ok None, s') \<Rightarrow> f w st t (s'\<lparr>trace := trace s' @ [Sleep 700]\<rparr>)
           | (Ok (Some out), s') \<Rightarrow> Some (Ok out, s')
           | (Throw e, s') \<Rightarrow> Some (Throw e, s')
        else Some (Ok (plainOutcome (js ''timeout'')), s)) = Some wa"
  show "\<forall>snip s'. wa = (Ok (invalidOutcome snip), s') \<longrightarrow> snip \<noteq> []"
  proof (cases "int (clock w (trace s)) - int st < int t")
    case False
    with eq show ?thesis by (auto simp: invalidOutcome_other(2)[symmetric])
  next
    case True
    obtain r s1 where p: "pollOnce w s = (r, s1)" by (cases "pollOnce w s")
    show ?thesis
    proof (cases r)
      case (Throw e)
      with True p eq show ?thesis by auto
    next
      case (Ok x)
      show ?thesis
      proof (cases x)
        case None
        with Ok True p eq have "f w st t (s1\<lparr>trace := trace s1 @ [Sleep 700]\<rparr>) = Some wa"
          by simp
        then show ?thesis by (rule IH)
      next
        case (Some out)
        with Ok True p eq show ?thesis
          using pollOnce_invalid_nonempty[of w s _ s1] by auto
      qed
    qed
  qed
qed

lemma loginForm_Some:
  "loginForm w email password s = (Ok (Some out), s') \<Longrightarrow> o_outcome out = None"
  by (auto simp: loginForm_def bnd_def ret_def
      split: prod.splits outcome.splits option.splits if_splits)

lemma doLoginOnce_invalid_nonempty:
  assumes "doLoginOnce w email password s = Some (Ok (invalidOutcome snip), s1)"
  shows "snip \<noteq> []"
proof -
  obtain r s0 where f: "loginForm w email password s = (r, s0)"
    by (cases "loginForm w email password s")
  show ?thesis
  proof (cases r)
    case (Throw e)
    with f assms show ?thesis by (simp add: doLoginOnce_def)
  next
    case (Ok x)
    show ?thesis
    proof (cases x)
      case None
      with Ok f assms have "pollLoop w (clock w (trace s0)) 20000 s0
          = Some (Ok (invalidOutcome snip), s1)"
        by (simp add: doLoginOnce_def waitForLoginOutcome_def)
      then show ?thesis using pollLoop_invalid_nonempty by blast
    next
      case (Some out)
      with Ok f assms have "out = invalidOutcome snip" by (simp add: doLoginOnce_def)
      moreover have "o_outcome out = None" using Some Ok f loginForm_Some by blast
      ultimately show ?thesis by (simp add: invalidOutcome_def plainOutcome_def)
    qed
  qed
qed

text \<open>
  Claim C8. When an attempt ends with the polling's invalid-credentials outcome,
  \<open>login\<close> returns at once, in the state the polling left, the failure
  \<open>invalid_credentials\<close> with the snippet as detail, whatever the attempt number and
  the number of retries left. The snippet of such an outcome is never empty, so the
  detail is never null.
\<close>

theorem login_invalid_credentials_terminal:
  assumes "attempt \<le> maxRetries"
    and "doLoginOnce w email password s = Some (Ok (invalidOutcome snip), s1)"
  shows "loginLoop w email password maxRetries attempt s
           = Some (Ok (emptyResult\<lparr>success := Some False,
                        error := Some (js ''invalid_credentials''),
                        detail := Some (Snippet snip)\<rparr>), s1)"
proof -
  have "snip \<noteq> []" using assms(2) by (rule doLoginOnce_invalid_nonempty)
  then show ?thesis
    using assms
    by (simp add: loginLoop.simps[of w email password maxRetries attempt s] decide_invalid)
qed

lemma doLoginOnce_by_form:
  "loginForm w email password s = (Ok None, s0) \<Longrightarrow> pollOnce w s0 = (Ok (Some out), s1) \<Longrightarrow>
     doLoginOnce w email password s = Some (Ok out, s1)"
  by (simp add: doLoginOnce_def waitForLoginOutcome_first)

lemma pollOnce_captcha:
  "successCheck w s = (Ok None, s) \<Longrightarrow> captchaCheck w s = (Ok (Some out), s1) \<Longrightarrow>
     pollOnce w s = (Ok (Some out), s1)"
  by (simp add: pollOnce_def orElse_result)

lemma pollOnce_invalid:
  "successCheck w s = (Ok None, s) \<Longrightarrow> captchaCheck w s = (Ok None, s) \<Longrightarrow>
     credentialsCheck w s = (Ok (Some out), s1) \<Longrightarrow> pollOnce w s = (Ok (Some out), s1)"
  by (simp add: pollOnce_def orElse_result)

lemma form_page_queries:
  "query form_page searchSelector = Ok None"
  "query form_page (js ''#email'') = Ok (Some 1)"
  "query form_page (js ''#pass'') = Ok (Some 1)"
  "\<forall>sel\<in>set SELECTOR_CANDIDATES. query form_page sel = Ok None"
  by (simp_all add: form_page_def blank_page_def searchSelector_def SELECTOR_CANDIDATES_def js_def)

lemma checkpoint_url: "is_checkpoint_url (js ''/checkpoint'')"
  by (simp add: is_checkpoint_url_def regex_i_test_def canon_def js_def)

lemma form_typed_still:
  assumes "query p searchSelector = Ok None" and "query p (js ''#email'') = Ok (Some h1)"
    and "query p (js ''#pass'') = Ok (Some h2)"
  shows "\<exists>s'. loginForm (still_world p) email password s = (Ok None, s')"
  by (rule loginForm_typed[where wh = "\<lambda>tr sel. None" and ?h1.0 = h1 and ?h2.0 = h2])
     (simp_all add: still_world_simps assms)

text \<open>The witness of claim C6: the login form is typed into, the page then stands at a
  checkpoint address, and the draw is 0.\<close>

theorem login_captcha_backoff_witness:
  "\<exists>c s1. doLoginOnce (still_world checkpoint_page) (js ''a'') (js ''b'') start
            = Some (Ok (captchaOutcome c), s1)
     \<and> 0 \<le> random (still_world checkpoint_page) (draws s1)
     \<and> random (still_world checkpoint_page) (draws s1) < 1
     \<and> (\<exists>j rest s2.
           loginLoop (still_world checkpoint_page) (js ''a'') (js ''b'') 2 0 start
             = loginLoop (still_world checkpoint_page) (js ''a'') (js ''b'') 2 (Suc 0) s2
           \<and> trace s2 = trace s1
                @ shotEvents (still_world checkpoint_page) (js ''login-captcha-'' @ decimal 0) (trace s1)
                @ [Sleep (real (min 15000 (1000 * 2 ^ Suc 0) + j))] @ rest
           \<and> j < 1000
           \<and> (rest = [ClearStorage] \<or> (\<exists>cs. rest = [ClearStorage, DeleteCookie cs])))
     \<and> (\<exists>sh s2.
           loginLoop (still_world checkpoint_page) (js ''a'') (js ''b'') 2 2 start
             = Some (Ok (emptyResult\<lparr>success := Some False,
                          error := Some (js ''captcha_detected''), screenshotPath := sh,
                          detail := Some (CaptchaDetail c)\<rparr>), s2))"
proof -
  let ?w = "still_world checkpoint_page"
  have q: "query checkpoint_page = query form_page"
    by (simp add: checkpoint_page_def)
  have "\<exists>s'. loginForm ?w (js ''a'') (js ''b'') start = (Ok None, s')"
    by (rule form_typed_still[of _ 1 1]) (simp_all add: q form_page_queries)
  then obtain s0 where f: "loginForm ?w (js ''a'') (js ''b'') start = (Ok None, s0)"
    by blast
  have sc: "successCheck ?w s0 = (Ok None, s0)"
    by (rule successCheck_absent) (simp add: still_world_simps q form_page_queries)
  have "url (view ?w (trace s0)) = Ok (js ''/checkpoint'')"
    by (simp add: still_world_simps checkpoint_page_def)
  then obtain sh where d: "detectCaptcha ?w s0
      = (Ok (found (js ''url'') (js ''/checkpoint'') None sh),
         s0\<lparr>trace := trace s0 @ shotEvents ?w (js ''captcha-by-url'') (trace s0)\<rparr>)"
    using detectCaptcha_url[OF _ checkpoint_url] by blast
  let ?c = "found (js ''url'') (js ''/checkpoint'') None sh"
  let ?s1 = "s0\<lparr>trace := trace s0 @ shotEvents ?w (js ''captcha-by-url'') (trace s0)\<rparr>"
  have "captchaCheck ?w s0 = (Ok (Some (captchaOutcome ?c)), ?s1)"
    using d by (rule captchaCheck_hit) (simp add: found_def)
  then have "pollOnce ?w s0 = (Ok (Some (captchaOutcome ?c)), ?s1)"
    using sc by (rule_tac pollOnce_captcha)
  then have once: "doLoginOnce ?w (js ''a'') (js ''b'') start = Some (Ok (captchaOutcome ?c), ?s1)"
    using f by (rule_tac doLoginOnce_by_form)
  have r: "0 \<le> random ?w (draws ?s1)" "random ?w (draws ?s1) < 1"
    by (simp_all add: still_world_simps)
  from login_captcha_backoff[OF once r, of 0 2] login_captcha_backoff[OF once r, of 2 2] once r
  show ?thesis by (intro exI[of _ ?c] exI[of _ ?s1]) simp
qed

lemma rejected_quiet: "detectCaptcha (still_world rejected_page) s = (Ok not_detected, s)"
proof (rule detectCaptcha_quiet)
  let ?w = "still_world rejected_page"
  show "urlCheck ?w s = (Ok None, s)"
    by (rule urlCheck_no_match[where u = "js ''https://www.facebook.com/''"])
       (simp_all add: still_world_simps rejected_page_def form_page_def blank_page_def
          facebook_not_checkpoint)
  show "frameCheck ?w s = (Ok None, s)"
    by (rule frameCheck_empty)
       (simp add: still_world_simps rejected_page_def form_page_def blank_page_def)
  have "query rejected_page = query form_page"
    by (simp add: rejected_page_def)
  then show "scanSelectors ?w SELECTOR_CANDIDATES s = (Ok None, s)"
    using form_page_queries(4) by (intro scanSelectors_quiet) (simp add: still_world_simps)
  show "bodyCheck ?w s = (Ok None, s)"
  proof (rule bodyCheck_no_phrase[where b = "Some (js ''Incorrect'')"])
    show "bodyText (view ?w (trace s)) = Ok (Some (js ''Incorrect''))"
      by (simp add: still_world_simps rejected_page_def)
    show "list_all (\<lambda>p. \<not> (normalize ?w p \<noteq> []
            \<and> js_includes (normalize ?w (or_empty (Some (js ''Incorrect'')))) (normalize ?w p)))
          (TEXT_PATTERNS_EN @ TEXT_PATTERNS_FA)"
      unfolding incorrect_normal by (rule incorrect_no_phrase)
  qed
qed

lemma incorrect_invalid: "invalidText (js ''incorrect'')"
  by (simp add: invalidText_def js_def)

lemma incorrect_lower: "ascii_lower (js ''Incorrect'') = js ''incorrect''"
  by (simp add: ascii_lower_def js_def)

text \<open>The witness of claim C8: after the form is submitted the body text reads
  \<open>Incorrect\<close> and nothing on the page looks like a challenge.\<close>

theorem login_invalid_credentials_terminal_witness:
  "\<exists>s1. doLoginOnce (still_world rejected_page) (js ''a'') (js ''b'') start
          = Some (Ok (invalidOutcome (js ''incorrect'')), s1)
     \<and> loginLoop (still_world rejected_page) (js ''a'') (js ''b'') 2 0 start
          = Some (Ok (emptyResult\<lparr>success := Some False,
                       error := Some (js ''invalid_credentials''),
                       detail := Some (Snippet (js ''incorrect''))\<rparr>), s1)"
proof -
  let ?w = "still_world rejected_page"
  have q: "query rejected_page = query form_page"
    by (simp add: rejected_page_def)
  have "\<exists>s'. loginForm ?w (js ''a'') (js ''b'') start = (Ok None, s')"
    by (rule form_typed_still[of _ 1 1]) (simp_all add: q form_page_queries)
  then obtain s0 where f: "loginForm ?w (js ''a'') (js ''b'') start = (Ok None, s0)"
    by blast
  have sc: "successCheck ?w s0 = (Ok None, s0)"
    by (rule successCheck_absent) (simp add: still_world_simps q form_page_queries)
  have cc: "captchaCheck ?w s0 = (Ok None, s0)"
    by (rule captchaCheck_quiet) (rule rejected_quiet)
  have "credentialsCheck ?w s0
      = (Ok (Some (invalidOutcome (slice0 800 (toLowerCase ?w (or_empty (Some (js ''Incorrect''))))))), s0)"
    by (rule credentialsCheck_hit)
       (simp_all add: still_world_simps rejected_page_def or_empty_def incorrect_lower
          incorrect_invalid)
  moreover have "slice0 800 (toLowerCase ?w (or_empty (Some (js ''Incorrect'')))) = js ''incorrect''"
    by (simp add: still_world_simps or_empty_def incorrect_lower slice0_def)
       (simp add: js_def)
  ultimately have "credentialsCheck ?w s0 = (Ok (Some (invalidOutcome (js ''incorrect''))), s0)"
    by simp
  then have "pollOnce ?w s0 = (Ok (Some (invalidOutcome (js ''incorrect''))), s0)"
    using sc cc by (rule_tac pollOnce_invalid)
  then have once: "doLoginOnce ?w (js ''a'') (js ''b'') start
      = Some (Ok (invalidOutcome (js ''incorrect'')), s0)"
    using f by (rule_tac doLoginOnce_by_form)
  from login_invalid_credentials_terminal[OF _ once, of 0 2] once
  show ?thesis by (intro exI[of _ s0]) simp
qed

text \<open>
  Claim C10. \<open>humanType\<close> with a selector that matches no element throws
  \<open>humanType: handle not found\<close> and does nothing else. Inside \<open>login\<close>, where it
  is called with the selector \<open>#email\<close>, nothing between the call and the try/catch
  of the retry loop handles the fault: when navigation and the waits succeed, the
  logged-in marker is absent and \<open>#email\<close> matches nothing, \<open>login\<close> returns the
  failure whose \<open>error\<close> is that message, and no key has been typed.
\<close>

theorem humanType_missing_element_throws:
  "(query (view w (trace s)) sel = Ok None \<longrightarrow>
      humanType w (Selector sel) txt mn mx s = (Throw (js ''humanType: handle not found''), s))
   \<and> ((\<forall>tr e. fails w tr e = None)
       \<and> (\<forall>tr. query (view w tr) searchSelector = Ok None)
       \<and> (\<forall>tr sel vis t. waitFor w tr sel vis t = Ok (wh tr sel))
       \<and> (\<forall>tr. query (view w tr) (js ''#email'') = Ok None)
       \<and> attempt \<le> maxRetries \<longrightarrow>
      (\<exists>s'. loginLoop w email password maxRetries attempt s
               = Some (Ok (failure (js ''humanType: handle not found'')), s')
           \<and> (\<forall>ch. KeyType ch \<notin> set (trace s') - set (trace s))))"
proof (intro conjI impI)
  assume "query (view w (trace s)) sel = Ok None"
  then show "humanType w (Selector sel) txt mn mx s = (Throw (js ''humanType: handle not found''), s)"
    by (rule humanType_missing)
next
  assume a: "(\<forall>tr e. fails w tr e = None)
       \<and> (\<forall>tr. query (view w tr) searchSelector = Ok None)
       \<and> (\<forall>tr sel vis t. waitFor w tr sel vis t = Ok (wh tr sel))
       \<and> (\<forall>tr. query (view w tr) (js ''#email'') = Ok None)
       \<and> attempt \<le> maxRetries"
  let ?s' = "s\<lparr>trace := trace s @ [Goto (js ''https://www.facebook.com/login''),
          WaitForSelector (js ''#email'') False 10000, WaitForSelector (js ''#pass'') False 10000]\<rparr>"
  have "loginForm w email password s = (Throw (js ''humanType: handle not found''), ?s')"
    using a by (intro loginForm_no_email[where wh = wh]) simp_all
  then have "doLoginOnce w email password s = Some (Throw (js ''humanType: handle not found''), ?s')"
    by (simp add: doLoginOnce_def)
  then have "loginLoop w email password maxRetries attempt s
      = Some (Ok (failure (js ''humanType: handle not found'')), ?s')"
    using a by (simp add: loginLoop.simps[of w email password maxRetries attempt s])
  then show "\<exists>s'. loginLoop w email password maxRetries attempt s
               = Some (Ok (failure (js ''humanType: handle not found'')), s')
           \<and> (\<forall>ch. KeyType ch \<notin> set (trace s') - set (trace s))"
    by (intro exI[of _ ?s']) simp
qed

theorem humanType_missing_element_throws_witness:
  "query (view (still_world blank_page) (trace start)) (js ''#email'') = Ok None
   \<and> humanType (still_world blank_page) (Selector (js ''#email'')) (js ''a'') 70 140 start
       = (Throw (js ''humanType: handle not found''), start)
   \<and> (\<exists>s'. loginLoop (still_world blank_page) (js ''a'') (js ''b'') 2 0 start
               = Some (Ok (failure (js ''humanType: handle not found'')), s')
           \<and> (\<forall>ch. KeyType ch \<notin> set (trace s') - set (trace start)))"
  using humanType_missing_element_throws[of "still_world blank_page" start "js ''#email''"
      "js ''a''" 70 140 "\<lambda>tr sel. None" 0 2 "js ''a''" "js ''b''"]
  by (simp add: still_world_simps blank_page_def)

subsection \<open>sendMessage\<close>

lemma paced_goto:
  fixes k :: "unit \<Rightarrow> 'r prog"
  assumes "\<forall>tr. fails w tr (Goto u) = None"
  shows "\<exists>pre s3. bnd (waitRandom w a b) (\<lambda>_. bnd (throttle w) (\<lambda>_. bnd (act w (Goto u)) k)) s
           = k () s3
         \<and> trace s3 = trace s @ pre @ [Goto u] \<and> list_all is_sleep pre"
proof -
  define s1 where "s1 = s\<lparr>draws := Suc (draws s),
      trace := trace s @ [Sleep (a + random w (draws s) * b)]\<rparr>"
  obtain pre s2 where th: "\<forall>f :: unit \<Rightarrow> 'r prog. bnd (throttle w) f s1 = f () s2"
    and tr2: "trace s2 = trace s1 @ pre" and pre: "list_all is_sleep pre"
    using throttle_sleeps by blast
  define s3 where "s3 = s2\<lparr>trace := trace s2 @ [Goto u]\<rparr>"
  have "bnd (waitRandom w a b) (\<lambda>_. bnd (throttle w) (\<lambda>_. bnd (act w (Goto u)) k)) s
      = bnd (throttle w) (\<lambda>_. bnd (act w (Goto u)) k) s1"
    by (simp add: bnd_waitRandom s1_def)
  also have "\<dots> = bnd (act w (Goto u)) k s2"
    using th[rule_format, of "\<lambda>_. bnd (act w (Goto u)) k"] .
  also have "\<dots> = k () s3"
    using assms by (simp add: bnd_act s3_def)
  finally have "bnd (waitRandom w a b) (\<lambda>_. bnd (throttle w) (\<lambda>_. bnd (act w (Goto u)) k)) s
      = k () s3" .
  moreover have "trace s3 = trace s @ (Sleep (a + random w (draws s) * b) # pre) @ [Goto u]"
    by (simp add: s3_def tr2 s1_def)
  moreover have "list_all is_sleep (Sleep (a + random w (draws s) * b) # pre)"
    using pre by (simp add: is_sleep_def)
  ultimately show ?thesis by blast
qed

lemma sendMessage_arrived_expired:
  assumes "url (view w (trace s)) = Ok u"
    and "query (view w (trace s)) loginFieldsSelector = Ok (Some h)"
  shows "\<exists>sh. sendMessage_arrived w recipient txt s
           = (Ok (failureShot (js ''not_logged_in'') sh),
              s\<lparr>trace := trace s @ shotEvents w (js ''not-logged-in'') (trace s)\<rparr>)"
proof -
  obtain sh where sh: "captureScreenshot w (js ''not-logged-in'') s
      = (Ok sh, s\<lparr>trace := trace s @ shotEvents w (js ''not-logged-in'') (trace s)\<rparr>)"
    using captureScreenshot_run by blast
  have "sendMessage_arrived w recipient txt s
           = (Ok (failureShot (js ''not_logged_in'') sh),
              s\<lparr>trace := trace s @ shotEvents w (js ''not-logged-in'') (trace s)\<rparr>)"
    using assms
    by (simp add: sendMessage_arrived_def bnd_observe
        bnd_result(1)[where m = "captureScreenshot w (js ''not-logged-in'')", OF sh] ret_def)
  then show ?thesis by blast
qed

text \<open>
  Claim C9. The navigation to the messaging surface succeeds, and right after it the
  page answers \<open>page.url()\<close> and shows a login field (the selector
  \<open>#email, input[name='email'], input[type='password']\<close> matches). Then
  \<open>sendMessage\<close> returns the failure \<open>not_logged_in\<close>, and all it has done is
  pause, navigate once to the messaging surface, and call the screenshot helper: no key is
  typed, nothing is clicked or searched, and there is no second navigation.
\<close>

theorem sendMessage_not_logged_in:
  assumes "\<forall>tr. fails w tr (Goto messagesUrl) = None"
    and "\<forall>tr. url (view w (tr @ [Goto messagesUrl])) = Ok (u tr)"
    and "\<forall>tr. query (view w (tr @ [Goto messagesUrl])) loginFieldsSelector = Ok (Some h)"
  shows "\<exists>sh pre s'. sendMessage w recipient txt s = (Ok (failureShot (js ''not_logged_in'') sh), s')
           \<and> trace s' = trace s @ pre @ [Goto messagesUrl]
                @ shotEvents w (js ''not-logged-in'') (trace s @ pre @ [Goto messagesUrl])
           \<and> list_all is_sleep pre"
proof -
  obtain pre s3 where
    t: "sendMessage_try w recipient txt s = sendMessage_arrived w recipient txt s3"
    and tr: "trace s3 = trace s @ pre @ [Goto messagesUrl]" and pre: "list_all is_sleep pre"
    unfolding sendMessage_try_def
    using paced_goto[OF assms(1), of 1000 2000 "\<lambda>_. sendMessage_arrived w recipient txt" s]
    by blast
  have "url (view w (trace s3)) = Ok (u (trace s @ pre))"
    and "query (view w (trace s3)) loginFieldsSelector = Ok (Some h)"
    using assms(2)[rule_format, of "trace s @ pre"] assms(3)[rule_format, of "trace s @ pre"] tr
    by simp_all
  then obtain sh where "sendMessage_arrived w recipient txt s3
           = (Ok (failureShot (js ''not_logged_in'') sh),
              s3\<lparr>trace := trace s3 @ shotEvents w (js ''not-logged-in'') (trace s3)\<rparr>)"
    using sendMessage_arrived_expired by blast
  with t have "sendMessage w recipient txt s
           = (Ok (failureShot (js ''not_logged_in'') sh),
              s3\<lparr>trace := trace s3 @ shotEvents w (js ''not-logged-in'') (trace s3)\<rparr>)"
    by (simp add: sendMessage_def ok_try_catch)
  with tr pre show ?thesis by (intro exI[of _ sh] exI[of _ pre]) simp
qed

theorem sendMessage_not_logged_in_witness:
  "\<exists>sh pre s'. sendMessage (still_world expired_page) (js ''Ann'') (js ''hi'') start
        = (Ok (failureShot (js ''not_logged_in'') sh), s')
     \<and> success (failureShot (js ''not_logged_in'') sh) = Some False
     \<and> error (failureShot (js ''not_logged_in'') sh) = Some (js ''not_logged_in'')
     \<and> trace s' = trace start @ pre @ [Goto messagesUrl]
          @ shotEvents (still_world expired_page) (js ''not-logged-in'')
              (trace start @ pre @ [Goto messagesUrl])
     \<and> list_all is_sleep pre"
  using sendMessage_not_logged_in[of "still_world expired_page"
      "\<lambda>tr. js ''https://www.facebook.com/''" 3 "js ''Ann''" "js ''hi''" start]
  by (simp add: still_world_simps expired_page_def blank_page_def failureShot_def failure_def
      emptyResult_def)

end
